theory Spec2Isabelle
  imports Main "HOL-Library.AList" "HOL-Library.Monad_Syntax" "HOL-Library.Char_ord"
begin

section \<open>Values shared by the workflows\<close>

text \<open>
  The workflows are TypeScript step functions (\<^verbatim>\<open>createStep({ ..., execute })\<close>) chained by
  \<^verbatim>\<open>createWorkflow(...).then(...).branch(...).map(...)\<close>. Every \<^verbatim>\<open>execute\<close> function is
  embedded as a HOL function of its \<^verbatim>\<open>inputData\<close> and of the external operations it awaits.
  A thrown JavaScript \<^verbatim>\<open>Error\<close> is the value \<open>Error message\<close>; a call that may throw
  returns \<open>error + 'a\<close> with \<open>Inl\<close> for the throw.

  The optional \<^verbatim>\<open>writer\<close> handle only publishes progress notices (\<^verbatim>\<open>writer?.write\<close>); it
  is absent in the model.
\<close>

datatype error = Error string

text \<open>
  Dynamically typed values (\<^verbatim>\<open>z.any()\<close>, the result of \<^verbatim>\<open>JSON.parse\<close>). An object is an
  association list in insertion order. Numbers are integers in the model.
\<close>

datatype jsval =
    Undefined
  | Null
  | Bool bool
  | Num int
  | Str string
  | Arr "jsval list"
  | Obj "(string \<times> jsval) list"

definition nl :: string where
  "nl = [CHR 0x0A]"

definition dq :: string where
  "dq = [CHR 0x22]"

text \<open>Decimal rendering of a number inside a template literal.\<close>

function string_of_nat :: "nat \<Rightarrow> string" where
  "string_of_nat n =
     (if n < 10 then [char_of (48 + n)]
      else string_of_nat (n div 10) @ [char_of (48 + n mod 10)])"
  by pat_completeness auto
termination
  by (relation "measure id") auto

declare string_of_nat.simps [simp del]

definition string_of_int :: "int \<Rightarrow> string" where
  "string_of_int i = (if i < 0 then ''-'' @ string_of_nat (nat (- i)) else string_of_nat (nat i))"

text \<open>\<^verbatim>\<open>xs.join(sep)\<close>\<close>

fun join :: "string \<Rightarrow> string list \<Rightarrow> string" where
  "join sep [] = []"
| "join sep [x] = x"
| "join sep (x # y # ys) = x @ sep @ join sep (y # ys)"

section \<open>The document research workflow\<close>

datatype platform = GoogleDrive | GitHub | Slack

datatype channel = SlackChannel | EmailChannel | GoogleDriveChannel

fun channel_name :: "channel \<Rightarrow> string" where
  "channel_name SlackChannel = ''slack''"
| "channel_name EmailChannel = ''email''"
| "channel_name GoogleDriveChannel = ''google-drive''"

text \<open>
  The operations the helper functions of the file perform on the outside world. In the
  source each of them is a placeholder that writes a line with \<^verbatim>\<open>console.log\<close> and returns a
  fixed value; the model takes the outcome of the call as a parameter, so that a call that
  throws can be expressed; the definitions named \<open>placeholder...\<close> below are what the
  source does.
  \<^item> \<open>driveLookup\<close>, \<open>githubLookup\<close>, \<open>slackLookup\<close>: the bodies of the \<^verbatim>\<open>try\<close> blocks of
    \<^verbatim>\<open>searchGoogleDrive\<close>, \<^verbatim>\<open>searchGitHub\<close>, \<^verbatim>\<open>searchSlack\<close>;
  \<^item> \<open>createGoogleDoc\<close>, \<open>postToSlack\<close>, \<open>sendEmail\<close>: the publish helpers;
  \<^item> \<open>generateText\<close>: the completion call of the \<^verbatim>\<open>ai\<close> package;
  \<^item> \<open>jsonParse\<close>, \<open>jsonStringify\<close>: \<^verbatim>\<open>JSON.parse\<close> (\<open>None\<close> is the thrown
    \<^verbatim>\<open>SyntaxError\<close>) and \<^verbatim>\<open>JSON.stringify\<close>;
  \<^item> \<open>localeNow\<close>: \<^verbatim>\<open>new Date().toLocaleString()\<close>.
\<close>

record services =
  driveLookup :: "string \<Rightarrow> error + jsval list"
  githubLookup :: "string \<Rightarrow> error + jsval list"
  slackLookup :: "string \<Rightarrow> error + jsval list"
  createGoogleDoc :: "string \<Rightarrow> string \<Rightarrow> error + string"
  postToSlack :: "string \<Rightarrow> string \<Rightarrow> error + bool"
  sendEmail :: "string \<Rightarrow> string \<Rightarrow> error + bool"
  generateText :: "string \<Rightarrow> error + string"
  jsonParse :: "string \<Rightarrow> jsval option"
  jsonStringify :: "jsval \<Rightarrow> string"
  localeNow :: string

subsection \<open>Step 1: search-documents\<close>

record search_input =
  query :: string
  platforms :: "platform list option"
  requireApproval :: bool
  publishChannels :: "channel list option"

record search_output =
  googleDriveResults :: "jsval list option"
  githubResults :: "jsval list option"
  slackResults :: "jsval list option"
  totalResults :: nat
  query :: string
  requireApproval :: bool
  publishChannels :: "channel list option"

text \<open>
  \<^verbatim>\<open>async function searchGoogleDrive(query) { try { ...; return [...] } catch (error) { ...; return [] } }\<close>
  and its two siblings.
\<close>

definition searchGoogleDrive :: "services \<Rightarrow> string \<Rightarrow> jsval list" where
  "searchGoogleDrive sv q = (case driveLookup sv q of Inr res \<Rightarrow> res | Inl e \<Rightarrow> [])"

definition searchGitHub :: "services \<Rightarrow> string \<Rightarrow> jsval list" where
  "searchGitHub sv q = (case githubLookup sv q of Inr res \<Rightarrow> res | Inl e \<Rightarrow> [])"

definition searchSlack :: "services \<Rightarrow> string \<Rightarrow> jsval list" where
  "searchSlack sv q = (case slackLookup sv q of Inr res \<Rightarrow> res | Inl e \<Rightarrow> [])"

fun search :: "services \<Rightarrow> platform \<Rightarrow> string \<Rightarrow> jsval list" where
  "search sv GoogleDrive q = searchGoogleDrive sv q"
| "search sv GitHub q = searchGitHub sv q"
| "search sv Slack q = searchSlack sv q"

text \<open>\<^verbatim>\<open>const { query, platforms = ["google-drive", "github", "slack"], ... } = inputData\<close>\<close>

definition selected :: "search_input \<Rightarrow> platform list" where
  "selected inp =
     (case platforms inp of None \<Rightarrow> [GoogleDrive, GitHub, Slack] | Some ps \<Rightarrow> ps)"

text \<open>The \<^verbatim>\<open>results\<close> object before any search has settled.\<close>

definition initialResults :: "search_input \<Rightarrow> search_output" where
  "initialResults inp =
     \<lparr> googleDriveResults = Some [], githubResults = Some [], slackResults = Some [],
       totalResults = 0,
       search_output.query = search_input.query inp,
       search_output.requireApproval = search_input.requireApproval inp,
       search_output.publishChannels = search_input.publishChannels inp \<rparr>"

text \<open>
  The three \<^verbatim>\<open>if (platforms.includes(...)) searchPromises.push(...)\<close> statements, in the
  order of the source: the searches that are launched.
\<close>

definition launched :: "search_input \<Rightarrow> platform list" where
  "launched inp = filter (\<lambda>p. p \<in> set (selected inp)) [GoogleDrive, GitHub, Slack]"

text \<open>The \<^verbatim>\<open>.then(res => { results.<field> = res; ... })\<close> callback of each search.\<close>

fun onSettled :: "platform \<Rightarrow> jsval list \<Rightarrow> search_output \<Rightarrow> search_output" where
  "onSettled GoogleDrive res r = r\<lparr>googleDriveResults := Some res\<rparr>"
| "onSettled GitHub res r = r\<lparr>githubResults := Some res\<rparr>"
| "onSettled Slack res r = r\<lparr>slackResults := Some res\<rparr>"

text \<open>\<^verbatim>\<open>(results.googleDriveResults?.length || 0)\<close>\<close>

definition lengthOr0 :: "jsval list option \<Rightarrow> nat" where
  "lengthOr0 xs = (case xs of None \<Rightarrow> 0 | Some ys \<Rightarrow> length ys)"

text \<open>The statements after \<^verbatim>\<open>await Promise.all(searchPromises)\<close>.\<close>

definition afterJoin :: "search_output \<Rightarrow> search_output" where
  "afterJoin r =
     r\<lparr>totalResults :=
         lengthOr0 (googleDriveResults r) + lengthOr0 (githubResults r)
         + lengthOr0 (slackResults r)\<rparr>"

text \<open>
  The step when the launched searches settle in the order \<open>order\<close>, and the step with the
  searches settling in the order they were launched.
\<close>

definition settle :: "services \<Rightarrow> string \<Rightarrow> platform \<Rightarrow> search_output \<Rightarrow> search_output" where
  "settle sv q p r = onSettled p (search sv p q) r"

definition searchDocumentsStepIn ::
  "services \<Rightarrow> platform list \<Rightarrow> search_input \<Rightarrow> search_output" where
  "searchDocumentsStepIn sv order inp =
     afterJoin (fold (settle sv (search_input.query inp)) order (initialResults inp))"

definition searchDocumentsStep :: "services \<Rightarrow> search_input \<Rightarrow> search_output" where
  "searchDocumentsStep sv inp = searchDocumentsStepIn sv (launched inp) inp"

text \<open>
  The concurrent reading of the same step. A configuration holds the searches still
  pending, the searches that have settled (in the order they did) and the \<^verbatim>\<open>results\<close>
  object. Any pending search may settle next; its callback then runs. The step's
  \<^verbatim>\<open>await Promise.all(searchPromises)\<close> lets the statements after it run only once nothing
  is pending.
\<close>

record fanout =
  pending :: "platform list"
  settled :: "platform list"
  results :: search_output

definition fanoutStart :: "search_input \<Rightarrow> fanout" where
  "fanoutStart inp = \<lparr> pending = launched inp, settled = [], results = initialResults inp \<rparr>"

inductive settles :: "services \<Rightarrow> string \<Rightarrow> fanout \<Rightarrow> fanout \<Rightarrow> bool"
  for sv :: services and q :: string where
  settle_one:
    "p \<in> set (pending c) \<Longrightarrow>
     settles sv q c
       \<lparr> pending = removeAll p (pending c), settled = settled c @ [p],
         results = settle sv q p (results c) \<rparr>"

definition joined :: "fanout \<Rightarrow> search_output option" where
  "joined c = (if pending c = [] then Some (afterJoin (results c)) else None)"

definition reachable :: "services \<Rightarrow> search_input \<Rightarrow> fanout \<Rightarrow> bool" where
  "reachable sv inp c = (settles sv (search_input.query inp))\<^sup>*\<^sup>* (fanoutStart inp) c"

text \<open>What the source's placeholder helpers do.\<close>

definition placeholderDriveLookup :: "string \<Rightarrow> error + jsval list" where
  "placeholderDriveLookup q =
     Inr [Obj [(''id'', Str ''1''), (''name'', Str (''Document about '' @ q)),
               (''type'', Str ''document'')]]"

definition placeholderGithubLookup :: "string \<Rightarrow> error + jsval list" where
  "placeholderGithubLookup q =
     Inr [Obj [(''id'', Str ''1''), (''name'', Str (''Repository related to '' @ q)),
               (''type'', Str ''repository'')]]"

definition placeholderSlackLookup :: "string \<Rightarrow> error + jsval list" where
  "placeholderSlackLookup q =
     Inr [Obj [(''id'', Str ''1''), (''text'', Str (''Message about '' @ q)),
               (''channel'', Str ''general'')]]"

text \<open>\<^verbatim>\<open>createGoogleDoc\<close> returns a URL ending in \<^verbatim>\<open>Date.now()\<close>, the parameter \<open>now\<close>.\<close>

definition placeholderCreateGoogleDoc :: "nat \<Rightarrow> string \<Rightarrow> string \<Rightarrow> error + string" where
  "placeholderCreateGoogleDoc now title content =
     Inr (''https://docs.google.com/document/d/example-'' @ string_of_nat now)"

definition placeholderPostToSlack :: "string \<Rightarrow> string \<Rightarrow> error + bool" where
  "placeholderPostToSlack title content = Inr True"

definition placeholderSendEmail :: "string \<Rightarrow> string \<Rightarrow> error + bool" where
  "placeholderSendEmail title content = Inr True"

subsection \<open>Step 2: analyze-results\<close>

text \<open>\<^verbatim>\<open>xs.slice(0, 5)\<close> of a destructured field with the default \<^verbatim>\<open>[]\<close>.\<close>

definition firstFive :: "jsval list option \<Rightarrow> jsval" where
  "firstFive xs = Arr (take 5 (case xs of None \<Rightarrow> [] | Some ys \<Rightarrow> ys))"

definition analysisPrompt :: "services \<Rightarrow> search_output \<Rightarrow> string" where
  "analysisPrompt sv inp =
     nl @ ''      Analyze the following search results for the query '' @ dq
        @ search_output.query inp @ dq @ '' and provide:'' @ nl
     @ ''      1. A concise summary'' @ nl
     @ ''      2. Key findings (3-5 bullet points)'' @ nl
     @ ''      3. Actionable recommendations (2-3 items)'' @ nl
     @ ''      4. A relevance score from 0-100'' @ nl
     @ ''      '' @ nl
     @ ''      Google Drive Results: '' @ jsonStringify sv (firstFive (googleDriveResults inp)) @ nl
     @ ''      GitHub Results: '' @ jsonStringify sv (firstFive (githubResults inp)) @ nl
     @ ''      Slack Results: '' @ jsonStringify sv (firstFive (slackResults inp)) @ nl
     @ ''      '' @ nl
     @ ''      Format your response as JSON with keys: summary, keyFindings, recommendations, relevanceScore''
     @ nl @ ''    ''"

text \<open>
  The own enumerable properties that an object spread \<^verbatim>\<open>{...v}\<close> copies: the entries of an
  object, the indexed elements of an array or of a string, and nothing for the other values.
\<close>

fun spread :: "jsval \<Rightarrow> (string \<times> jsval) list" where
  "spread (Obj kvs) = kvs"
| "spread (Arr xs) = zip (map string_of_nat [0..<length xs]) xs"
| "spread (Str s) = zip (map string_of_nat [0..<length s]) (map (\<lambda>c. Str [c]) s)"
| "spread v = []"

definition channelsVal :: "channel list option \<Rightarrow> jsval" where
  "channelsVal cs =
     (case cs of None \<Rightarrow> Undefined | Some xs \<Rightarrow> Arr (map (\<lambda>c. Str (channel_name c)) xs))"

text \<open>
  The step returns a dynamically typed object: \<^verbatim>\<open>{...analysis, query, requireApproval, publishChannels}\<close>
  when \<^verbatim>\<open>JSON.parse(text)\<close> returns, the fallback object when it throws. A property written
  after the spread replaces the value of a property of that name and otherwise comes last,
  which is \<open>AList.update\<close>. The completion call is outside the \<^verbatim>\<open>try\<close>.
\<close>

definition analyzeResultsStep :: "services \<Rightarrow> search_output \<Rightarrow> error + jsval" where
  "analyzeResultsStep sv inp =
     (case generateText sv (analysisPrompt sv inp) of
        Inl e \<Rightarrow> Inl e
      | Inr text \<Rightarrow>
          (case jsonParse sv text of
             Some analysis \<Rightarrow>
               Inr (Obj
                 (AList.update ''publishChannels'' (channelsVal (search_output.publishChannels inp))
                 (AList.update ''requireApproval'' (Bool (search_output.requireApproval inp))
                 (AList.update ''query'' (Str (search_output.query inp))
                 (spread analysis)))))
           | None \<Rightarrow>
               Inr (Obj
                 [(''summary'', Str text),
                  (''keyFindings'', Arr [Str ''Analysis completed'']),
                  (''recommendations'', Arr [Str ''Review the findings'']),
                  (''relevanceScore'', Num 75),
                  (''query'', Str (search_output.query inp)),
                  (''requireApproval'', Bool (search_output.requireApproval inp)),
                  (''publishChannels'', channelsVal (search_output.publishChannels inp))])))"

text \<open>Reading a property: \<^verbatim>\<open>obj.key\<close> is \<^verbatim>\<open>undefined\<close> when the key is absent.\<close>

fun getProp :: "jsval \<Rightarrow> string \<Rightarrow> jsval" where
  "getProp (Obj kvs) k = (case map_of kvs k of None \<Rightarrow> Undefined | Some v \<Rightarrow> v)"
| "getProp v k = Undefined"

subsection \<open>Step 3: create-report\<close>

record report_input =
  summary :: string
  keyFindings :: "string list"
  recommendations :: "string list"
  relevanceScore :: int
  query :: string
  requireApproval :: bool
  publishChannels :: "channel list option"

text \<open>
  The \<^verbatim>\<open>inputSchema\<close> of the step as a function on dynamically typed values:
  \<^verbatim>\<open>z.string()\<close>, \<^verbatim>\<open>z.array(z.string())\<close>, \<^verbatim>\<open>z.number()\<close>, \<^verbatim>\<open>z.boolean()\<close> and
  \<^verbatim>\<open>z.array(z.enum(["slack", "email", "google-drive"])).optional()\<close>; \<open>None\<close> is rejection.
\<close>

fun zString :: "jsval \<Rightarrow> string option" where
  "zString (Str s) = Some s"
| "zString v = None"

fun zNumber :: "jsval \<Rightarrow> int option" where
  "zNumber (Num n) = Some n"
| "zNumber v = None"

fun zBoolean :: "jsval \<Rightarrow> bool option" where
  "zBoolean (Bool b) = Some b"
| "zBoolean v = None"

fun zAll :: "('a \<Rightarrow> 'b option) \<Rightarrow> 'a list \<Rightarrow> 'b list option" where
  "zAll f [] = Some []"
| "zAll f (x # xs) =
     (case f x of None \<Rightarrow> None
      | Some y \<Rightarrow> (case zAll f xs of None \<Rightarrow> None | Some ys \<Rightarrow> Some (y # ys)))"

fun zStringArray :: "jsval \<Rightarrow> string list option" where
  "zStringArray (Arr xs) = zAll zString xs"
| "zStringArray v = None"

fun zChannel :: "jsval \<Rightarrow> channel option" where
  "zChannel (Str s) =
     (if s = ''slack'' then Some SlackChannel
      else if s = ''email'' then Some EmailChannel
      else if s = ''google-drive'' then Some GoogleDriveChannel
      else None)"
| "zChannel v = None"

fun zChannelsOptional :: "jsval \<Rightarrow> channel list option option" where
  "zChannelsOptional Undefined = Some None"
| "zChannelsOptional (Arr xs) = map_option Some (zAll zChannel xs)"
| "zChannelsOptional v = None"

definition reportInputSchema :: "jsval \<Rightarrow> report_input option" where
  "reportInputSchema v =
     (case v of
        Obj kvs \<Rightarrow>
          do {
            s \<leftarrow> zString (getProp v ''summary'');
            kf \<leftarrow> zStringArray (getProp v ''keyFindings'');
            rc \<leftarrow> zStringArray (getProp v ''recommendations'');
            sc \<leftarrow> zNumber (getProp v ''relevanceScore'');
            q \<leftarrow> zString (getProp v ''query'');
            ra \<leftarrow> zBoolean (getProp v ''requireApproval'');
            pc \<leftarrow> zChannelsOptional (getProp v ''publishChannels'');
            Some \<lparr> summary = s, keyFindings = kf, recommendations = rc, relevanceScore = sc,
                   report_input.query = q, report_input.requireApproval = ra,
                   report_input.publishChannels = pc \<rparr>
          }
      | _ \<Rightarrow> None)"

datatype report_format = Markdown | Html | Plain

record report_output =
  reportTitle :: string
  reportContent :: string
  reportFormat :: report_format
  requireApproval :: bool
  publishChannels :: "channel list option"

text \<open>\<^verbatim>\<open>s.trim()\<close> on the white space of the ASCII range.\<close>

definition isSpace :: "char \<Rightarrow> bool" where
  "isSpace c = (c = CHR '' '' \<or> ((9::nat) \<le> of_char c \<and> (of_char c :: nat) \<le> 13))"

definition trim :: "string \<Rightarrow> string" where
  "trim s = rev (dropWhile isSpace (rev (dropWhile isSpace s)))"

text \<open>\<^verbatim>\<open>recommendations.map((rec, i) => `${i + 1}. ${rec}`)\<close>\<close>

definition numbered :: "string list \<Rightarrow> string list" where
  "numbered xs = map (\<lambda>(i, x). string_of_nat (i + 1) @ ''. '' @ x) (zip [0..<length xs] xs)"

definition createReportStep :: "services \<Rightarrow> report_input \<Rightarrow> report_output" where
  "createReportStep sv inp =
     (let title = ''Research Report: '' @ report_input.query inp;
          content = trim
            (nl @ ''# '' @ title @ nl
             @ nl
             @ ''**Generated on:** '' @ localeNow sv @ nl
             @ ''**Relevance Score:** '' @ string_of_int (relevanceScore inp) @ ''/100'' @ nl
             @ nl
             @ ''## Executive Summary'' @ nl
             @ summary inp @ nl
             @ nl
             @ ''## Key Findings'' @ nl
             @ join nl (map (\<lambda>finding. ''- '' @ finding) (keyFindings inp)) @ nl
             @ nl
             @ ''## Recommendations'' @ nl
             @ join nl (numbered (recommendations inp)) @ nl
             @ nl
             @ ''---'' @ nl
             @ ''*This report was automatically generated by the Smart Document Research Workflow*''
             @ nl @ ''    '')
      in \<lparr> reportTitle = title, reportContent = content, reportFormat = Markdown,
           report_output.requireApproval = report_input.requireApproval inp,
           report_output.publishChannels = report_input.publishChannels inp \<rparr>)"

subsection \<open>Steps 4 and 5: human-approval and auto-approve\<close>

record suspend_payload =
  reportTitle :: string
  reportContent :: string

record resume_data =
  approved :: bool
  feedback :: "string option"
  modifiedContent :: "string option"

record approval_output =
  approved :: bool
  feedback :: "string option"
  reportTitle :: string
  reportContent :: string
  publishChannels :: "channel list option"

text \<open>
  What one call of the \<^verbatim>\<open>execute\<close> function of the human-approval step does: the argument
  it passed to \<^verbatim>\<open>suspend\<close>, if it called it, and the value it returned.
\<close>

record approval_effect =
  suspendArg :: "suspend_payload option"
  returned :: approval_output

text \<open>\<^verbatim>\<open>resumeData.modifiedContent || reportContent\<close>: an absent or empty string is falsy.\<close>

definition orElse :: "string option \<Rightarrow> string \<Rightarrow> string" where
  "orElse a b = (case a of None \<Rightarrow> b | Some x \<Rightarrow> if x = [] then b else x)"

definition approvalStep :: "report_output \<Rightarrow> resume_data option \<Rightarrow> approval_effect" where
  "approvalStep inp resumeData =
     (case resumeData of
        None \<Rightarrow>
          \<lparr> suspendArg = Some \<lparr> suspend_payload.reportTitle = report_output.reportTitle inp,
                                suspend_payload.reportContent = report_output.reportContent inp \<rparr>,
            returned = \<lparr> approval_output.approved = False, approval_output.feedback = None,
                         approval_output.reportTitle = report_output.reportTitle inp,
                         approval_output.reportContent = report_output.reportContent inp,
                         approval_output.publishChannels = report_output.publishChannels inp \<rparr> \<rparr>
      | Some rd \<Rightarrow>
          \<lparr> suspendArg = None,
            returned = \<lparr> approval_output.approved = resume_data.approved rd,
                         approval_output.feedback = resume_data.feedback rd,
                         approval_output.reportTitle = report_output.reportTitle inp,
                         approval_output.reportContent =
                           orElse (modifiedContent rd) (report_output.reportContent inp),
                         approval_output.publishChannels = report_output.publishChannels inp \<rparr> \<rparr>)"

text \<open>
  The output of auto-approve; the output of normalize-branch-output and the input of
  publish-report declare the same four fields.
\<close>

record approved_report =
  approved :: bool
  reportTitle :: string
  reportContent :: string
  publishChannels :: "channel list option"

definition autoApproveStep :: "report_output \<Rightarrow> approved_report" where
  "autoApproveStep inp =
     \<lparr> approved_report.approved = True,
       approved_report.reportTitle = report_output.reportTitle inp,
       approved_report.reportContent = report_output.reportContent inp,
       approved_report.publishChannels = report_output.publishChannels inp \<rparr>"

subsection \<open>Step 6: normalize-branch-output\<close>

text \<open>The input object has one optional property per branch target, named by its step id.\<close>

record branch_output =
  humanApproval :: "approval_output option"
  autoApprove :: "approved_report option"

definition normalizeBranchOutputStep :: "branch_output \<Rightarrow> error + approved_report" where
  "normalizeBranchOutputStep inp =
     (case humanApproval inp of
        Some h \<Rightarrow>
          Inr \<lparr> approved_report.approved = approval_output.approved h,
                approved_report.reportTitle = approval_output.reportTitle h,
                approved_report.reportContent = approval_output.reportContent h,
                approved_report.publishChannels = approval_output.publishChannels h \<rparr>
      | None \<Rightarrow>
          (case autoApprove inp of
             Some a \<Rightarrow>
               Inr \<lparr> approved_report.approved = approved_report.approved a,
                     approved_report.reportTitle = approved_report.reportTitle a,
                     approved_report.reportContent = approved_report.reportContent a,
                     approved_report.publishChannels = approved_report.publishChannels a \<rparr>
           | None \<Rightarrow> Inl (Error ''No branch result found'')))"

subsection \<open>Step 7: publish-report\<close>

record publish_output =
  published :: bool
  publishedChannels :: "string list"
  urls :: "string list"
  reportTitle :: string
  message :: string

text \<open>The calls of the publish helpers, recorded in the order they are made.\<close>

datatype publish_call =
    CreateGoogleDoc string string
  | PostToSlack string string
  | SendEmail string string

record publishing =
  channelsDone :: "string list"
  urlsDone :: "string list"
  calls :: "publish_call list"

text \<open>
  One iteration of \<^verbatim>\<open>for (const channel of publishChannels)\<close>: the \<^verbatim>\<open>try\<close> block, whose
  \<^verbatim>\<open>catch\<close> leaves the two arrays as they are.
\<close>

fun publishTo :: "services \<Rightarrow> string \<Rightarrow> string \<Rightarrow> channel \<Rightarrow> publishing \<Rightarrow> publishing" where
  "publishTo sv title content GoogleDriveChannel st =
     (case createGoogleDoc sv title content of
        Inr url \<Rightarrow>
          \<lparr> channelsDone = channelsDone st @ [''google-drive''], urlsDone = urlsDone st @ [url],
            calls = calls st @ [CreateGoogleDoc title content] \<rparr>
      | Inl e \<Rightarrow> st\<lparr>calls := calls st @ [CreateGoogleDoc title content]\<rparr>)"
| "publishTo sv title content SlackChannel st =
     (case postToSlack sv title content of
        Inr ok \<Rightarrow>
          st\<lparr>channelsDone := channelsDone st @ [''slack''],
             calls := calls st @ [PostToSlack title content]\<rparr>
      | Inl e \<Rightarrow> st\<lparr>calls := calls st @ [PostToSlack title content]\<rparr>)"
| "publishTo sv title content EmailChannel st =
     (case sendEmail sv title content of
        Inr ok \<Rightarrow>
          st\<lparr>channelsDone := channelsDone st @ [''email''],
             calls := calls st @ [SendEmail title content]\<rparr>
      | Inl e \<Rightarrow> st\<lparr>calls := calls st @ [SendEmail title content]\<rparr>)"

text \<open>
  The result of the step: \<open>Bail r\<close> when it returned \<^verbatim>\<open>bail(r)\<close>, \<open>Return r\<close> when it
  returned \<open>r\<close>; and the helper calls it made.
\<close>

datatype publish_result = Bail publish_output | Return publish_output

definition publishReportStep :: "services \<Rightarrow> approved_report \<Rightarrow> publish_result \<times> publish_call list" where
  "publishReportStep sv inp =
     (if \<not> approved_report.approved inp then
        (Bail \<lparr> published = False, publishedChannels = [], urls = [],
                publish_output.reportTitle = approved_report.reportTitle inp,
                message = ''Report was not approved for publication'' \<rparr>, [])
      else
        let chans = (case approved_report.publishChannels inp of
                       None \<Rightarrow> [GoogleDriveChannel] | Some cs \<Rightarrow> cs);
            st = fold (publishTo sv (approved_report.reportTitle inp)
                         (approved_report.reportContent inp))
                   chans \<lparr> channelsDone = [], urlsDone = [], calls = [] \<rparr>
        in (Return \<lparr> published = (length (channelsDone st) > 0),
                     publishedChannels = channelsDone st, urls = urlsDone st,
                     publish_output.reportTitle = approved_report.reportTitle inp,
                     message =
                       (if length (channelsDone st) > 0
                        then ''Report published to '' @ join '', '' (channelsDone st)
                        else ''Report was not published to any channels'') \<rparr>,
            calls st))"

subsection \<open>The workflow\<close>

text \<open>The workflow's \<^verbatim>\<open>inputSchema\<close>: \<^verbatim>\<open>requireApproval: z.boolean().default(true)\<close>.\<close>

record workflow_input =
  query :: string
  platforms :: "platform list option"
  requireApproval :: "bool option"
  publishChannels :: "channel list option"

definition workflowInputSchema :: "workflow_input \<Rightarrow> search_input" where
  "workflowInputSchema inp =
     \<lparr> search_input.query = workflow_input.query inp,
       search_input.platforms = workflow_input.platforms inp,
       search_input.requireApproval =
         (case workflow_input.requireApproval inp of None \<Rightarrow> True | Some b \<Rightarrow> b),
       search_input.publishChannels = workflow_input.publishChannels inp \<rparr>"

record workflow_output =
  success :: bool
  reportTitle :: string
  publishedChannels :: "string list"
  message :: string

text \<open>The \<^verbatim>\<open>.map(async ({ inputData }) => ({ ... }))\<close> node that ends the chain.\<close>

definition mapFinalOutput :: "publish_output \<Rightarrow> workflow_output" where
  "mapFinalOutput inp =
     \<lparr> success = published inp,
       workflow_output.reportTitle = publish_output.reportTitle inp,
       workflow_output.publishedChannels = publish_output.publishedChannels inp,
       workflow_output.message = publish_output.message inp \<rparr>"

text \<open>The two \<^verbatim>\<open>[guard, step]\<close> pairs of \<^verbatim>\<open>.branch([...])\<close>, in the order they are declared.\<close>

datatype branch_target = HumanApprovalStep | AutoApproveStep

definition approvalBranches :: "((report_output \<Rightarrow> bool) \<times> branch_target) list" where
  "approvalBranches =
     [(\<lambda>inputData. report_output.requireApproval inputData = True, HumanApprovalStep),
      (\<lambda>inputData. report_output.requireApproval inputData \<noteq> True, AutoApproveStep)]"

subsection \<open>The engine driving a run\<close>

text \<open>
  Modelled from the spec: the engine of \<^verbatim>\<open>@mastra/core/workflows\<close> (\<^verbatim>\<open>createWorkflow\<close>,
  \<^verbatim>\<open>.then\<close>, \<^verbatim>\<open>.branch\<close>, \<^verbatim>\<open>.map\<close>, \<^verbatim>\<open>suspend\<close>, \<^verbatim>\<open>bail\<close>, resuming a run) is a package the
  sources import and do not contain. The definitions of this subsection follow sections
  3, 4.2, 4.3 and 4.5 of the specification:
  \<^item> a run has a status among Pending, Running, Suspended, Succeeded, Failed, Bailed;
  \<^item> the driver runs the accumulated data through the next node's input contract, fails
    the run with a validation error on rejection, and otherwise invokes the node;
  \<^item> a node that continues hands its record to the next node; a node that suspends
    parks the run as Suspended with the checkpoint \<open>{stepId, payload, accumulatedDataSnapshot}\<close>;
    a node that bails ends the run as Bailed with its record as the terminal output,
    skipping the remaining nodes; a node that throws ends the run as Failed;
  \<^item> a branch node tests its guards in the order they are declared, the first guard
    that holds selects its target, and the run fails with a routing error when none holds;
  \<^item> resuming a run that is not Suspended fails with an invalid-state error; resuming a
    Suspended run re-enters the suspended step with the resume data and the snapshot.

  Between two typed steps the record handed on has the type of the next input schema, so
  that contract is met by construction. The analysis step returns a dynamically typed
  object, which the input schema of the report step has to accept.
\<close>

datatype status = Pending | Running | Suspended | Succeeded | Failed | Bailed

text \<open>
  The errors of section 7 of the specification; an execution error carries the id of the
  step that threw and what it threw.
\<close>

datatype run_error =
    ValidationError string
  | RoutingError
  | ExecutionError string error
  | InvalidStateError

fun route :: "(('a \<Rightarrow> bool) \<times> 't) list \<Rightarrow> 'a \<Rightarrow> 't option" where
  "route [] a = None"
| "route ((guard, target) # rest) a = (if guard a then Some target else route rest a)"

record checkpoint =
  stepId :: string
  payload :: suspend_payload
  accumulatedDataSnapshot :: report_output

datatype terminal_output = Mapped workflow_output | BailRecord publish_output

text \<open>
  A run as the caller sees it, with two observations added: the ids of the nodes that
  were invoked, in order, and the publish helper calls that were made.
\<close>

record run =
  status :: status
  terminalOutput :: "terminal_output option"
  failure :: "run_error option"
  suspension :: "checkpoint option"
  invoked :: "string list"
  publishCalls :: "publish_call list"

definition failedRun :: "string list \<Rightarrow> run_error \<Rightarrow> run" where
  "failedRun trail e =
     \<lparr> status = Failed, terminalOutput = None, failure = Some e, suspension = None,
       invoked = trail, publishCalls = [] \<rparr>"

text \<open>The nodes after the branch: normalize-branch-output, publish-report, the map node.\<close>

definition afterBranch :: "services \<Rightarrow> string list \<Rightarrow> branch_output \<Rightarrow> run" where
  "afterBranch sv trail bo =
     (case normalizeBranchOutputStep bo of
        Inl e \<Rightarrow>
          failedRun (trail @ [''normalize-branch-output''])
            (ExecutionError ''normalize-branch-output'' e)
      | Inr n \<Rightarrow>
          (case publishReportStep sv n of
             (Bail r, cs) \<Rightarrow>
               \<lparr> status = Bailed, terminalOutput = Some (BailRecord r), failure = None,
                 suspension = None,
                 invoked = trail @ [''normalize-branch-output'', ''publish-report''],
                 publishCalls = cs \<rparr>
           | (Return r, cs) \<Rightarrow>
               \<lparr> status = Succeeded, terminalOutput = Some (Mapped (mapFinalOutput r)), failure = None,
                 suspension = None,
                 invoked = trail @ [''normalize-branch-output'', ''publish-report'', ''map''],
                 publishCalls = cs \<rparr>))"

text \<open>The branch node and the target it selects, entered for the first time.\<close>

definition branchNode :: "services \<Rightarrow> string list \<Rightarrow> report_output \<Rightarrow> run" where
  "branchNode sv trail rep =
     (case route approvalBranches rep of
        None \<Rightarrow> failedRun trail RoutingError
      | Some HumanApprovalStep \<Rightarrow>
          (let eff = approvalStep rep None in
           case suspendArg eff of
             Some p \<Rightarrow>
               \<lparr> status = Suspended, terminalOutput = None, failure = None,
                 suspension = Some \<lparr> stepId = ''human-approval'', payload = p,
                                      accumulatedDataSnapshot = rep \<rparr>,
                 invoked = trail @ [''human-approval''], publishCalls = [] \<rparr>
           | None \<Rightarrow>
               afterBranch sv (trail @ [''human-approval''])
                 \<lparr> humanApproval = Some (returned eff), autoApprove = None \<rparr>)
      | Some AutoApproveStep \<Rightarrow>
          afterBranch sv (trail @ [''auto-approve''])
            \<lparr> humanApproval = None, autoApprove = Some (autoApproveStep rep) \<rparr>)"

text \<open>
  \<^verbatim>\<open>.then(searchDocumentsStep).then(analyzeResultsStep).then(createReportStep).branch(...)\<close>
  \<^verbatim>\<open>.then(normalizeBranchOutputStep).then(publishReportStep).map(...)\<close>, started on an input.
\<close>

definition startRun :: "services \<Rightarrow> workflow_input \<Rightarrow> run" where
  "startRun sv inp =
     (let found = searchDocumentsStep sv (workflowInputSchema inp) in
      case analyzeResultsStep sv found of
        Inl e \<Rightarrow>
          failedRun [''search-documents'', ''analyze-results'']
            (ExecutionError ''analyze-results'' e)
      | Inr analysis \<Rightarrow>
          (case reportInputSchema analysis of
             None \<Rightarrow>
               failedRun [''search-documents'', ''analyze-results'']
                 (ValidationError ''create-report'')
           | Some accepted \<Rightarrow>
               branchNode sv [''search-documents'', ''analyze-results'', ''create-report'']
                 (createReportStep sv accepted)))"

text \<open>Resuming a run with resume data that its resume contract accepted.\<close>

definition resumeRun :: "services \<Rightarrow> run \<Rightarrow> resume_data \<Rightarrow> run_error + run" where
  "resumeRun sv r rd =
     (if status r \<noteq> Suspended then Inl InvalidStateError
      else
        (case suspension r of
           None \<Rightarrow> Inl InvalidStateError
         | Some cp \<Rightarrow>
             (let eff = approvalStep (accumulatedDataSnapshot cp) (Some rd) in
              case suspendArg eff of
                Some p \<Rightarrow>
                  Inr (r\<lparr>suspension := Some (cp\<lparr>payload := p\<rparr>)\<rparr>)
              | None \<Rightarrow>
                  Inr (afterBranch sv (invoked r)
                         \<lparr> humanApproval = Some (returned eff), autoApprove = None \<rparr>))))"

section \<open>The project onboarding workflow\<close>

datatype priority = Low | Medium | High

fun priority_name :: "priority \<Rightarrow> string" where
  "priority_name Low = ''low''"
| "priority_name Medium = ''medium''"
| "priority_name High = ''high''"

record platform_flags =
  github :: bool
  slack :: bool
  googleDrive :: bool

text \<open>
  The records below are the schemas of the file, each an extension of the one before
  (\<^verbatim>\<open>projectInputSchema\<close>, \<^verbatim>\<open>step1OutputSchema = projectInputSchema.extend({...})\<close>, and so
  on); a value is the data after its schema accepted it, defaults filled.
\<close>

record project_input =
  projectName :: string
  description :: string
  teamMembers :: "string list"
  techStack :: "string list"
  deadline :: "string option"
  priority :: priority
  platforms :: platform_flags

record step1_output = project_input +
  projectId :: string
  createdAt :: string
  slug :: string

record step2_output = step1_output +
  repositoryUrl :: string
  repositoryName :: string
  githubSuccess :: bool

record step3_output = step2_output +
  driveFolderUrl :: string
  driveFolderId :: string
  driveSuccess :: bool

record step4_output = step3_output +
  channelName :: string
  channelId :: string
  slackSuccess :: bool

record setup_links =
  github :: "string option"
  googleDrive :: "string option"
  slack :: "string option"

record final_output =
  projectSummary :: string
  welcomeMessage :: string
  onboardingComplete :: bool
  setupLinks :: setup_links
  projectId :: string

text \<open>
  What the steps read from the outside: \<^verbatim>\<open>Date.now()\<close>, \<^verbatim>\<open>new Date().toISOString()\<close>, the
  two values of \<^verbatim>\<open>Math.random().toString(36)\<close> (for the project id and for the channel id),
  and the pictographs of the welcome message, which are outside the ASCII range.
\<close>

record surroundings =
  dateNow :: nat
  isoNow :: string
  projectRandom :: string
  channelRandom :: string
  party :: string
  folder :: string
  bullet :: string
  people :: string
  calendar :: string
  label :: string
  wrench :: string
  rocket :: string

text \<open>
  An agent is its \<^verbatim>\<open>generate(prompt, { resourceId, threadId })\<close> method, which returns the
  text of the response or throws. \<^verbatim>\<open>mastra.getAgent(name)\<close> looks the agent up among the
  registered ones; the steps receive \<^verbatim>\<open>mastra\<close> itself as an optional value.
\<close>

type_synonym agent = "string \<Rightarrow> string \<Rightarrow> string \<Rightarrow> error + string"

record mastra =
  agents :: "(string \<times> agent) list"

definition getAgent :: "mastra option \<Rightarrow> string \<Rightarrow> agent option" where
  "getAgent m name = (case m of None \<Rightarrow> None | Some inst \<Rightarrow> map_of (agents inst) name)"

text \<open>
  \<^verbatim>\<open>new Mastra({ agents: { projectAssistantAgent, codeReviewerAgent }, workflows: { ... } })\<close>,
  the instance in which the workflows are registered; the two agents are defined in files
  outside the sources.
\<close>

definition mastraInstance :: "agent \<Rightarrow> agent \<Rightarrow> mastra" where
  "mastraInstance projectAssistantAgent codeReviewerAgent =
     \<lparr> agents = [(''projectAssistantAgent'', projectAssistantAgent),
                  (''codeReviewerAgent'', codeReviewerAgent)] \<rparr>"

subsection \<open>Step 1: validate-project-data\<close>

text \<open>\<^verbatim>\<open>s.toLowerCase()\<close> and \<^verbatim>\<open>s.toUpperCase()\<close> on the letters of the ASCII range.\<close>

definition toLowerCase :: "string \<Rightarrow> string" where
  "toLowerCase s =
     map (\<lambda>c. if CHR ''A'' \<le> c \<and> c \<le> CHR ''Z'' then char_of (of_char c + (32::nat)) else c) s"

definition toUpperCase :: "string \<Rightarrow> string" where
  "toUpperCase s =
     map (\<lambda>c. if CHR ''a'' \<le> c \<and> c \<le> CHR ''z'' then char_of (of_char c - (32::nat)) else c) s"

definition slugChar :: "char \<Rightarrow> bool" where
  "slugChar c = ((CHR ''a'' \<le> c \<and> c \<le> CHR ''z'') \<or> (CHR ''0'' \<le> c \<and> c \<le> CHR ''9''))"

text \<open>\<^verbatim>\<open>.replace(/[^a-z0-9]+/g, '-')\<close>\<close>

function dashRuns :: "string \<Rightarrow> string" where
  "dashRuns [] = []"
| "dashRuns (c # cs) =
     (if slugChar c then c # dashRuns cs
      else CHR ''-'' # dashRuns (dropWhile (\<lambda>x. \<not> slugChar x) cs))"
  by pat_completeness auto
termination
  by (relation "measure length") (auto simp: length_dropWhile_le less_Suc_eq_le)

text \<open>\<^verbatim>\<open>.replace(/^-|-$/g, '')\<close>\<close>

definition stripDashes :: "string \<Rightarrow> string" where
  "stripDashes s =
     (let t = (case s of [] \<Rightarrow> [] | c # cs \<Rightarrow> if c = CHR ''-'' then cs else s)
      in if t \<noteq> [] \<and> last t = CHR ''-'' then butlast t else t)"

text \<open>\<^verbatim>\<open>s.substr(start, len)\<close> for a start inside the string.\<close>

definition substr :: "string \<Rightarrow> nat \<Rightarrow> nat \<Rightarrow> string" where
  "substr s start len = take len (drop start s)"

definition validateProjectData :: "surroundings \<Rightarrow> project_input \<Rightarrow> step1_output" where
  "validateProjectData w inp =
     (let pid = ''proj_'' @ string_of_nat (dateNow w) @ ''_'' @ substr (projectRandom w) 2 9;
          sl = stripDashes (dashRuns (toLowerCase (projectName inp)))
      in project_input.extend inp
           \<lparr> step1_output.projectId = pid, createdAt = isoNow w, slug = sl \<rparr>)"

text \<open>\<^verbatim>\<open>xs.join(', ') || fallback\<close> and \<^verbatim>\<open>inputData.deadline || fallback\<close>\<close>

definition joinedOr :: "string list \<Rightarrow> string \<Rightarrow> string" where
  "joinedOr xs fallback = (if join '', '' xs = [] then fallback else join '', '' xs)"

subsection \<open>Step 2: create-github-repo\<close>

definition githubPrompt :: "step1_output \<Rightarrow> string" where
  "githubPrompt inp =
     ''Create a new GitHub repository with these details:'' @ nl
     @ ''      - Name: '' @ slug inp @ nl
     @ ''      - Description: '' @ description inp @ nl
     @ ''      - Make it private initially'' @ nl
     @ ''      - Initialize with README'' @ nl
     @ ''      - Add .gitignore for '' @ joinedOr (techStack inp) ''general development'' @ nl
     @ ''      '' @ nl
     @ ''      Please create the repository and return the repository URL.''"

definition createGitHubRepository :: "mastra option \<Rightarrow> step1_output \<Rightarrow> error + step2_output" where
  "createGitHubRepository m inp =
     (case getAgent m ''projectAssistantAgent'' of
        None \<Rightarrow> Inl (Error ''Project Assistant agent not found'')
      | Some agent \<Rightarrow>
          if \<not> platform_flags.github (platforms inp) then
            Inr (step1_output.extend inp
                   \<lparr> repositoryUrl = [], repositoryName = [], githubSuccess = False \<rparr>)
          else
            (case agent (githubPrompt inp) (''system-'' @ step1_output.projectId inp)
                    (''github-setup-'' @ step1_output.projectId inp) of
               Inr response \<Rightarrow>
                 Inr (step1_output.extend inp
                        \<lparr> repositoryUrl = ''https://github.com/user/'' @ slug inp,
                          repositoryName = slug inp, githubSuccess = True \<rparr>)
             | Inl e \<Rightarrow>
                 Inr (step1_output.extend inp
                        \<lparr> repositoryUrl = [], repositoryName = [], githubSuccess = False \<rparr>)))"

subsection \<open>Step 3: create-google-drive-folder\<close>

definition drivePrompt :: "step2_output \<Rightarrow> string" where
  "drivePrompt inp =
     ''Create a Google Drive folder for project '' @ dq @ projectName inp @ dq @ '':'' @ nl
     @ ''      - Folder name: '' @ projectName inp @ '' - Project Files'' @ nl
     @ ''      - Share with team members: '' @ join '', '' (teamMembers inp) @ nl
     @ ''      - Create subfolders: Documentation, Design Assets, Meeting Notes, Resources'' @ nl
     @ ''      - Set permissions to allow editing for team members'' @ nl
     @ ''      '' @ nl
     @ ''      Please create the folder structure and return the main folder URL.''"

definition createGoogleDriveFolder :: "mastra option \<Rightarrow> step2_output \<Rightarrow> error + step3_output" where
  "createGoogleDriveFolder m inp =
     (case getAgent m ''projectAssistantAgent'' of
        None \<Rightarrow> Inl (Error ''Project Assistant agent not found'')
      | Some agent \<Rightarrow>
          if \<not> platform_flags.googleDrive (platforms inp) then
            Inr (step2_output.extend inp
                   \<lparr> driveFolderUrl = [], driveFolderId = [], driveSuccess = False \<rparr>)
          else
            (case agent (drivePrompt inp) (''system-'' @ step1_output.projectId inp)
                    (''drive-setup-'' @ step1_output.projectId inp) of
               Inr response \<Rightarrow>
                 Inr (step2_output.extend inp
                        \<lparr> driveFolderUrl =
                            ''https://drive.google.com/drive/folders/example_folder_id'',
                          driveFolderId = ''example_folder_id'', driveSuccess = True \<rparr>)
             | Inl e \<Rightarrow>
                 Inr (step2_output.extend inp
                        \<lparr> driveFolderUrl = [], driveFolderId = [], driveSuccess = False \<rparr>)))"

subsection \<open>Step 4: create-slack-channel\<close>

definition slackPrompt :: "string \<Rightarrow> step3_output \<Rightarrow> string" where
  "slackPrompt name inp =
     ''Create a Slack channel for project communication:'' @ nl
     @ ''      - Channel name: #'' @ name @ nl
     @ ''      - Topic: '' @ description inp @ nl
     @ ''      - Invite team members: '' @ join '', '' (teamMembers inp) @ nl
     @ ''      - Pin important information: Project deadline '' @ orElse (deadline inp) ''TBD''
     @ '', Priority: '' @ priority_name (priority inp) @ nl
     @ ''      '' @ nl
     @ ''      Please create the channel and invite the team members.''"

definition createSlackChannel ::
  "surroundings \<Rightarrow> mastra option \<Rightarrow> step3_output \<Rightarrow> error + step4_output" where
  "createSlackChannel w m inp =
     (case getAgent m ''projectAssistantAgent'' of
        None \<Rightarrow> Inl (Error ''Project Assistant agent not found'')
      | Some agent \<Rightarrow>
          if \<not> platform_flags.slack (platforms inp) then
            Inr (step3_output.extend inp
                   \<lparr> channelName = [], channelId = [], slackSuccess = False \<rparr>)
          else
            (let name = ''proj-'' @ slug inp in
             case agent (slackPrompt name inp) (''system-'' @ step1_output.projectId inp)
                    (''slack-setup-'' @ step1_output.projectId inp) of
               Inr response \<Rightarrow>
                 Inr (step3_output.extend inp
                        \<lparr> channelName = name,
                          channelId = ''C'' @ toUpperCase (substr (channelRandom w) 2 10),
                          slackSuccess = True \<rparr>)
             | Inl e \<Rightarrow>
                 Inr (step3_output.extend inp
                        \<lparr> channelName = [], channelId = [], slackSuccess = False \<rparr>)))"

subsection \<open>Step 5: generate-project-summary\<close>





subsection \<open>The workflow\<close>



section \<open>Concrete surroundings\<close>

text \<open>
  A concrete set of services: the placeholder helpers of the source, a completion call that
  answers in prose, and a \<^verbatim>\<open>JSON.parse\<close> that is defined on the two texts used below.
\<close>

definition sampleServices :: services where
  "sampleServices =
     \<lparr> driveLookup = placeholderDriveLookup,
       githubLookup = placeholderGithubLookup,
       slackLookup = placeholderSlackLookup,
       createGoogleDoc = placeholderCreateGoogleDoc 7,
       postToSlack = placeholderPostToSlack,
       sendEmail = placeholderSendEmail,
       generateText = (\<lambda>prompt. Inr ''The results look relevant.''),
       jsonParse = (\<lambda>text. if text = ''42'' then Some (Num 42)
                          else if text = ''{}'' then Some (Obj []) else None),
       jsonStringify = (\<lambda>v. ''[]''),
       localeNow = ''11/2/2026, 9:00:00 AM'' \<rparr>"

definition sampleInput :: workflow_input where
  "sampleInput =
     \<lparr> workflow_input.query = ''X'', workflow_input.platforms = Some [GitHub],
       workflow_input.requireApproval = Some False, workflow_input.publishChannels = None \<rparr>"

text \<open>The state of \<^verbatim>\<open>results\<close> once the searches of the set \<open>S\<close> have settled.\<close>

definition settledResults :: "services \<Rightarrow> search_input \<Rightarrow> platform set \<Rightarrow> search_output" where
  "settledResults sv inp S =
     \<lparr> googleDriveResults =
         Some (if GoogleDrive \<in> S then search sv GoogleDrive (search_input.query inp) else []),
       githubResults =
         Some (if GitHub \<in> S then search sv GitHub (search_input.query inp) else []),
       slackResults =
         Some (if Slack \<in> S then search sv Slack (search_input.query inp) else []),
       totalResults = 0,
       search_output.query = search_input.query inp,
       search_output.requireApproval = search_input.requireApproval inp,
       search_output.publishChannels = search_input.publishChannels inp \<rparr>"


definition twoPlatforms :: search_input where
  "twoPlatforms =
     \<lparr> search_input.query = ''X'', search_input.platforms = Some [GitHub, Slack],
       search_input.requireApproval = True, search_input.publishChannels = None \<rparr>"

definition allPlatforms :: search_input where
  "allPlatforms =
     \<lparr> search_input.query = ''X'', search_input.platforms = None,
       search_input.requireApproval = True, search_input.publishChannels = None \<rparr>"

definition approvalInput :: workflow_input where
  "approvalInput = sampleInput\<lparr>workflow_input.requireApproval := Some True\<rparr>"

text \<open>The fallback record of the analysis step for the sample services, once accepted.\<close>

definition sampleAccepted :: "bool \<Rightarrow> report_input" where
  "sampleAccepted approval =
     \<lparr> summary = ''The results look relevant.'', keyFindings = [''Analysis completed''],
       recommendations = [''Review the findings''], relevanceScore = 75,
       report_input.query = ''X'', report_input.requireApproval = approval,
       report_input.publishChannels = None \<rparr>"

definition rejection :: resume_data where
  "rejection = \<lparr> resume_data.approved = False, resume_data.feedback = None, modifiedContent = None \<rparr>"

definition sampleSurroundings :: surroundings where
  "sampleSurroundings =
     \<lparr> dateNow = 5, isoNow = ''2026-11-02T09:00:00.000Z'',
       projectRandom = ''0.k3j9x2m1q8'', channelRandom = ''0.a1b2c3d4e5f6'',
       party = ''(party)'', folder = ''(folder)'', bullet = ''*'', people = ''(people)'',
       calendar = ''(calendar)'', label = ''(label)'', wrench = ''(wrench)'',
       rocket = ''(rocket)'' \<rparr>"

definition sampleProject :: project_input where
  "sampleProject =
     \<lparr> projectName = ''My App'', description = ''A small demo project'',
       teamMembers = [''a@example.com''], techStack = [], deadline = None,
       priority = Medium,
       platforms = \<lparr> platform_flags.github = True, platform_flags.slack = True,
                     platform_flags.googleDrive = False \<rparr> \<rparr>"

text \<open>
  An agent whose calls throw except for the thread of the summary step, and an agent whose
  calls all throw.
\<close>

definition summaryOnlyAgent :: agent where
  "summaryOnlyAgent prompt resourceId threadId =
     (if take 8 threadId = ''summary-'' then Inr ''All set.''
      else Inl (Error ''platform call failed''))"

definition failingAgent :: agent where
  "failingAgent prompt resourceId threadId = Inl (Error ''platform call failed'')"

text \<open>The fallback object the analysis step returns for the sample services.\<close>

definition sampleAnalysis :: "bool \<Rightarrow> jsval" where
  "sampleAnalysis approval =
     Obj [(''summary'', Str ''The results look relevant.''),
          (''keyFindings'', Arr [Str ''Analysis completed'']),
          (''recommendations'', Arr [Str ''Review the findings'']),
          (''relevanceScore'', Num 75),
          (''query'', Str ''X''),
          (''requireApproval'', Bool approval),
          (''publishChannels'', Undefined)]"

text \<open>Services whose completion call answers with a text that parses, to the number 42.\<close>

definition terseServices :: services where
  "terseServices = sampleServices\<lparr>generateText := (\<lambda>prompt. Inr ''42'')\<rparr>"

definition rewriting :: resume_data where
  "rewriting =
     \<lparr> resume_data.approved = True, resume_data.feedback = Some ''Shorter, please'',
       modifiedContent = Some ''Short report'' \<rparr>"

definition sampleReport :: report_output where
  "sampleReport =
     \<lparr> report_output.reportTitle = ''Research Report: X'',
       report_output.reportContent = ''Long report'', reportFormat = Markdown,
       report_output.requireApproval = True, report_output.publishChannels = None \<rparr>"

text \<open>
  Services whose completion call throws, and services whose completion call answers with the
  empty JSON object.
\<close>

definition offlineServices :: services where
  "offlineServices = sampleServices\<lparr>generateText := (\<lambda>prompt. Inl (Error ''completion failed''))\<rparr>"

definition emptyReplyServices :: services where
  "emptyReplyServices = sampleServices\<lparr>generateText := (\<lambda>prompt. Inr ''{}'')\<rparr>"

section \<open>Properties of the search fan-out\<close>


lemma initial_settled: "initialResults inp = settledResults sv inp {}"
  by (simp add: initialResults_def settledResults_def)

lemma settle_settled:
  "settle sv (search_input.query inp) p (settledResults sv inp S) = settledResults sv inp (insert p S)"
  by (cases p) (simp_all add: settle_def settledResults_def)

lemma fold_settled:
  "fold (settle sv (search_input.query inp)) order (settledResults sv inp S)
     = settledResults sv inp (S \<union> set order)"
proof (induction order arbitrary: S)
  case Nil
  show ?case by simp
next
  case (Cons p ps)
  have "insert p S \<union> set ps = S \<union> set (p # ps)" by auto
  with Cons show ?case by (simp add: settle_settled)
qed

lemma step_same_set:
  "set order = set (launched inp) \<Longrightarrow> searchDocumentsStepIn sv order inp = searchDocumentsStep sv inp"
  by (simp add: searchDocumentsStepIn_def searchDocumentsStep_def initial_settled [of inp sv] fold_settled)

lemma settles_invariant:
  assumes "settles sv (search_input.query inp) c c'"
    and "results c = settledResults sv inp (set (settled c))"
    and "set (pending c) \<union> set (settled c) = set (launched inp)"
  shows "results c' = settledResults sv inp (set (settled c'))
       \<and> set (pending c') \<union> set (settled c') = set (launched inp)"
  using assms
proof (cases rule: settles.cases)
  case (settle_one p)
  then show ?thesis using assms(2,3) by (auto simp: settle_settled)
qed

lemma reachable_invariant:
  assumes "reachable sv inp c"
  shows "results c = settledResults sv inp (set (settled c))
       \<and> set (pending c) \<union> set (settled c) = set (launched inp)"
  using assms unfolding reachable_def
proof (induction rule: rtranclp_induct)
  case base
  show ?case by (simp add: fanoutStart_def initial_settled [of inp sv])
next
  case (step y z)
  then show ?case using settles_invariant by blast
qed

lemma joined_output:
  assumes "reachable sv inp c" and "joined c = Some out"
  shows "out = searchDocumentsStep sv inp \<and> pending c = [] \<and> set (settled c) = set (launched inp)"
proof -
  from assms(2) have p: "pending c = []" and o: "out = afterJoin (results c)"
    by (auto simp: joined_def split: if_splits)
  from reachable_invariant [OF assms(1)] p
  have r: "results c = settledResults sv inp (set (settled c))"
    and s: "set (settled c) = set (launched inp)" by auto
  have "searchDocumentsStep sv inp = afterJoin (settledResults sv inp (set (launched inp)))"
    by (simp add: searchDocumentsStep_def searchDocumentsStepIn_def initial_settled [of inp sv] fold_settled)
  with o r s p show ?thesis by simp
qed

lemma run_order:
  "distinct order \<Longrightarrow> set order = set (pending c) \<Longrightarrow>
   (settles sv q)\<^sup>*\<^sup>* c \<lparr> pending = [], settled = settled c @ order,
        results = fold (settle sv q) order (results c) \<rparr>"
proof (induction order arbitrary: c)
  case Nil
  then show ?case by (cases c) simp
next
  case (Cons p ps)
  let ?c' = "\<lparr> pending = removeAll p (pending c), settled = settled c @ [p],
         results = settle sv q p (results c) \<rparr>"
  from Cons.prems have "p \<in> set (pending c)" by auto
  then have st: "settles sv q c ?c'" by (rule settle_one)
  from Cons.prems have "distinct ps" "set ps = set (pending ?c')" by auto
  from Cons.IH [OF this] have "(settles sv q)\<^sup>*\<^sup>* ?c' \<lparr> pending = [], settled = settled ?c' @ ps,
        results = fold (settle sv q) ps (results ?c') \<rparr>" .
  with st show ?case by (simp add: converse_rtranclp_into_rtranclp)
qed

lemma any_order_reachable:
  assumes "distinct order" "set order = set (launched inp)"
  shows "\<exists>c. reachable sv inp c \<and> settled c = order \<and> joined c = Some (searchDocumentsStep sv inp)"
proof -
  let ?c = "\<lparr> pending = [], settled = order,
        results = fold (settle sv (search_input.query inp)) order (initialResults inp) \<rparr>"
  have "reachable sv inp ?c"
    using run_order [of order "fanoutStart inp" sv "search_input.query inp"] assms
    by (simp add: reachable_def fanoutStart_def)
  moreover have "joined ?c = Some (searchDocumentsStep sv inp)"
    using step_same_set [OF assms(2), of sv]
    by (simp add: joined_def searchDocumentsStepIn_def)
  ultimately show ?thesis by (intro exI [of _ ?c]) simp
qed

lemma launched_distinct: "distinct (launched inp)"
  by (simp add: launched_def)


lemma search_fields:
  "searchDocumentsStep sv inp
     = afterJoin (settledResults sv inp (set (launched inp)))"
  by (simp add: searchDocumentsStep_def searchDocumentsStepIn_def initial_settled [of inp sv]
        fold_settled)




text \<open>
  C5. Whatever the order in which the launched searches settle, the step's output is the
  same record. In the interleaving model the output exists only in a configuration with
  nothing pending (the \<^verbatim>\<open>await Promise.all\<close>); in every reachable configuration that has an
  output, every launched search has settled and the output is the one of the step run in
  launch order; every order of the launched searches is a possible settlement order and
  leads to that output.
\<close>

theorem fanout_output_independent_of_settlement_order:
  "(\<forall>c out. reachable sv inp c \<and> joined c = Some out
       \<longrightarrow> out = searchDocumentsStep sv inp \<and> pending c = []
           \<and> set (settled c) = set (launched inp))
   \<and> (\<forall>c. reachable sv inp c \<and> pending c \<noteq> [] \<longrightarrow> joined c = None)
   \<and> (\<forall>order. distinct order \<and> set order = set (launched inp)
       \<longrightarrow> searchDocumentsStepIn sv order inp = searchDocumentsStep sv inp
           \<and> (\<exists>c. reachable sv inp c \<and> settled c = order
                  \<and> joined c = Some (searchDocumentsStep sv inp)))"
  using joined_output [of sv inp] any_order_reachable [of _ inp sv] step_same_set [of _ inp sv]
  by (auto simp: joined_def)

theorem fanout_output_independent_of_settlement_order_witness:
  "distinct [Slack, GoogleDrive, GitHub]
   \<and> set [Slack, GoogleDrive, GitHub] = set (launched allPlatforms)
   \<and> searchDocumentsStepIn sampleServices [Slack, GoogleDrive, GitHub] allPlatforms
       = searchDocumentsStep sampleServices allPlatforms
   \<and> (\<exists>c. reachable sampleServices allPlatforms c \<and> settled c = [Slack, GoogleDrive, GitHub]
          \<and> pending c = []
          \<and> joined c = Some (searchDocumentsStep sampleServices allPlatforms))"
proof -
  have d: "distinct [Slack, GoogleDrive, GitHub]" by simp
  have s: "set [Slack, GoogleDrive, GitHub] = set (launched allPlatforms)"
    by (auto simp: launched_def selected_def allPlatforms_def)
  from fanout_output_independent_of_settlement_order [of sampleServices allPlatforms] d s
  have a: "searchDocumentsStepIn sampleServices [Slack, GoogleDrive, GitHub] allPlatforms
             = searchDocumentsStep sampleServices allPlatforms"
    and "\<exists>c. reachable sampleServices allPlatforms c \<and> settled c = [Slack, GoogleDrive, GitHub]
          \<and> joined c = Some (searchDocumentsStep sampleServices allPlatforms)"
    by blast+
  then obtain c where c: "reachable sampleServices allPlatforms c"
    "settled c = [Slack, GoogleDrive, GitHub]"
    "joined c = Some (searchDocumentsStep sampleServices allPlatforms)" by blast
  from fanout_output_independent_of_settlement_order [of sampleServices allPlatforms] c(1,3)
  have "pending c = []" by blast
  with a c d s show ?thesis by blast
qed

section \<open>Properties of the approval branch\<close>

lemma route_first_match:
  "route gs a = map_option snd (List.find (\<lambda>gt. fst gt a) gs)"
  by (induction gs a rule: route.induct) simp_all

lemma route_approval:
  "route approvalBranches rep
     = Some (if report_output.requireApproval rep then HumanApprovalStep else AutoApproveStep)"
  by (simp add: approvalBranches_def)

lemma afterBranch_no_routing_error:
  "failure (afterBranch sv trail bo) \<noteq> Some RoutingError"
  by (simp add: afterBranch_def failedRun_def split: sum.splits prod.splits publish_result.splits)

lemma branchNode_no_routing_error:
  "failure (branchNode sv trail rep) \<noteq> Some RoutingError"
  by (simp add: branchNode_def route_approval approvalStep_def afterBranch_no_routing_error)

lemma startRun_no_routing_error:
  "failure (startRun sv inp) \<noteq> Some RoutingError"
  by (simp add: startRun_def Let_def failedRun_def branchNode_no_routing_error
        split: sum.splits option.splits)

text \<open>
  C3. The branch of the document research workflow selects the human-approval step when
  \<^verbatim>\<open>requireApproval\<close> is true and the auto-approve step otherwise. Routing returns the target of
  the first pair, in the order of declaration, whose guard holds; it is a function of the
  record. Exactly one of the two guards holds for every record, so routing never finds no
  match, and no run of this workflow fails with a routing error.
\<close>

theorem branch_routing_first_match_total:
  "route approvalBranches rep
     = Some (if report_output.requireApproval rep then HumanApprovalStep else AutoApproveStep)
   \<and> route approvalBranches rep
       = map_option snd (List.find (\<lambda>gt. fst gt rep) approvalBranches)
   \<and> map snd approvalBranches = [HumanApprovalStep, AutoApproveStep]
   \<and> fst (approvalBranches ! 0) rep = (report_output.requireApproval rep = True)
   \<and> fst (approvalBranches ! 1) rep = (\<not> fst (approvalBranches ! 0) rep)
   \<and> route approvalBranches rep \<noteq> None
   \<and> failure (branchNode sv trail rep) \<noteq> Some RoutingError
   \<and> failure (startRun sv inp) \<noteq> Some RoutingError"
  using route_approval [of rep] route_first_match [of approvalBranches rep]
    branchNode_no_routing_error [of sv trail rep] startRun_no_routing_error [of sv inp]
  by (simp add: approvalBranches_def)

theorem branch_routing_first_match_total_witness:
  "route approvalBranches (createReportStep sampleServices (sampleAccepted False))
     = Some AutoApproveStep
   \<and> route approvalBranches (createReportStep sampleServices (sampleAccepted True))
     = Some HumanApprovalStep
   \<and> failure (startRun sampleServices sampleInput) \<noteq> Some RoutingError"
  using branch_routing_first_match_total
          [of "createReportStep sampleServices (sampleAccepted False)" sampleServices "[]" sampleInput]
        branch_routing_first_match_total
          [of "createReportStep sampleServices (sampleAccepted True)" sampleServices "[]" sampleInput]
  by (simp add: createReportStep_def sampleAccepted_def Let_def)

section \<open>Properties of the analysis step\<close>

lemma analysis_carries:
  assumes "analyzeResultsStep sv inp = Inr a"
  shows "getProp a ''query'' = Str (search_output.query inp)"
    and "getProp a ''requireApproval'' = Bool (search_output.requireApproval inp)"
    and "getProp a ''publishChannels'' = channelsVal (search_output.publishChannels inp)"
proof -
  from assms obtain reply where t: "generateText sv (analysisPrompt sv inp) = Inr reply"
    by (auto simp: analyzeResultsStep_def split: sum.splits)
  show "getProp a ''query'' = Str (search_output.query inp)"
    using assms t
    by (cases "jsonParse sv reply")
       (auto simp: analyzeResultsStep_def update_conv')
  show "getProp a ''requireApproval'' = Bool (search_output.requireApproval inp)"
    using assms t
    by (cases "jsonParse sv reply")
       (auto simp: analyzeResultsStep_def update_conv')
  show "getProp a ''publishChannels'' = channelsVal (search_output.publishChannels inp)"
    using assms t
    by (cases "jsonParse sv reply")
       (auto simp: analyzeResultsStep_def update_conv')
qed

lemma zAll_channels: "zAll zChannel (map (\<lambda>c. Str (channel_name c)) cs) = Some cs"
proof (induction cs)
  case Nil
  show ?case by simp
next
  case (Cons c cs)
  then show ?case by (cases c) simp_all
qed

lemma zChannels_roundtrip: "zChannelsOptional (channelsVal cs) = Some cs"
  by (cases cs) (simp_all add: channelsVal_def zAll_channels)

lemma accepted_fields:
  assumes "reportInputSchema a = Some ri"
  shows "zString (getProp a ''query'') = Some (report_input.query ri)"
    and "zBoolean (getProp a ''requireApproval'') = Some (report_input.requireApproval ri)"
    and "zChannelsOptional (getProp a ''publishChannels'') = Some (report_input.publishChannels ri)"
  using assms
  by (auto simp: reportInputSchema_def split: jsval.splits Option.bind_splits)

lemma accepted_carries:
  assumes "analyzeResultsStep sv inp = Inr a" and "reportInputSchema a = Some ri"
  shows "report_input.query ri = search_output.query inp"
    and "report_input.requireApproval ri = search_output.requireApproval inp"
    and "report_input.publishChannels ri = search_output.publishChannels inp"
  using accepted_fields [OF assms(2)] analysis_carries [OF assms(1)]
  by (simp_all add: zChannels_roundtrip)

lemma search_carries:
  "search_output.query (searchDocumentsStep sv inp) = search_input.query inp"
  "search_output.requireApproval (searchDocumentsStep sv inp) = search_input.requireApproval inp"
  "search_output.publishChannels (searchDocumentsStep sv inp) = search_input.publishChannels inp"
  by (simp_all add: search_fields afterJoin_def settledResults_def)

lemma report_carries:
  "report_output.reportTitle (createReportStep sv ri) = ''Research Report: '' @ report_input.query ri"
  "report_output.requireApproval (createReportStep sv ri) = report_input.requireApproval ri"
  "report_output.publishChannels (createReportStep sv ri) = report_input.publishChannels ri"
  by (simp_all add: createReportStep_def Let_def)

lemma startRun_reaches_branch:
  assumes "analyzeResultsStep sv (searchDocumentsStep sv (workflowInputSchema inp)) = Inr a"
    and "reportInputSchema a = Some ri"
  shows "startRun sv inp
           = branchNode sv [''search-documents'', ''analyze-results'', ''create-report'']
               (createReportStep sv ri)"
    and "report_output.requireApproval (createReportStep sv ri)
           = search_input.requireApproval (workflowInputSchema inp)"
    and "report_output.publishChannels (createReportStep sv ri)
           = workflow_input.publishChannels inp"
    and "report_output.reportTitle (createReportStep sv ri)
           = ''Research Report: '' @ workflow_input.query inp"
  using assms accepted_carries [OF assms]
  by (simp_all add: startRun_def Let_def report_carries search_carries workflowInputSchema_def)

section \<open>Properties of suspension, resumption and bail\<close>

lemma branchNode_approval:
  assumes "report_output.requireApproval rep"
  shows "branchNode sv trail rep
     = \<lparr> status = Suspended, terminalOutput = None, failure = None,
         suspension = Some \<lparr> stepId = ''human-approval'',
                              payload = \<lparr> suspend_payload.reportTitle = report_output.reportTitle rep,
                                          suspend_payload.reportContent = report_output.reportContent rep \<rparr>,
                              accumulatedDataSnapshot = rep \<rparr>,
         invoked = trail @ [''human-approval''], publishCalls = [] \<rparr>"
  using assms by (simp add: branchNode_def route_approval approvalStep_def)

lemma afterBranch_status:
  "status (afterBranch sv trail bo) \<in> {Succeeded, Failed, Bailed}"
  by (simp add: afterBranch_def failedRun_def split: sum.splits prod.splits publish_result.splits)

lemma branchNode_auto:
  assumes "\<not> report_output.requireApproval rep"
  shows "branchNode sv trail rep
     = afterBranch sv (trail @ [''auto-approve''])
         \<lparr> humanApproval = None, autoApprove = Some (autoApproveStep rep) \<rparr>"
  using assms by (simp add: branchNode_def route_approval)

lemma startRun_suspended:
  assumes "status (startRun sv inp) = Suspended"
  shows "\<exists>rep. startRun sv inp
     = \<lparr> status = Suspended, terminalOutput = None, failure = None,
         suspension = Some \<lparr> stepId = ''human-approval'',
                              payload = \<lparr> suspend_payload.reportTitle = report_output.reportTitle rep,
                                          suspend_payload.reportContent = report_output.reportContent rep \<rparr>,
                              accumulatedDataSnapshot = rep \<rparr>,
         invoked = [''search-documents'', ''analyze-results'', ''create-report'', ''human-approval''],
         publishCalls = [] \<rparr>"
proof (cases "analyzeResultsStep sv (searchDocumentsStep sv (workflowInputSchema inp))")
  case (Inl e)
  with assms show ?thesis by (simp add: startRun_def Let_def failedRun_def)
next
  case (Inr a)
  show ?thesis
  proof (cases "reportInputSchema a")
    case None
    with Inr assms show ?thesis by (simp add: startRun_def Let_def failedRun_def)
  next
    case (Some ri)
    let ?rep = "createReportStep sv ri"
    let ?trail = "[''search-documents'', ''analyze-results'', ''create-report'']"
    have eq: "startRun sv inp = branchNode sv ?trail ?rep"
      using startRun_reaches_branch(1) [OF Inr Some] .
    show ?thesis
    proof (cases "report_output.requireApproval ?rep")
      case True
      from branchNode_approval [OF True, of sv ?trail] eq show ?thesis by auto
    next
      case False
      from branchNode_auto [OF False, of sv ?trail] eq assms
        afterBranch_status [of sv "?trail @ [''auto-approve'']"
          "\<lparr> humanApproval = None, autoApprove = Some (autoApproveStep ?rep) \<rparr>"]
      show ?thesis by simp
    qed
  qed
qed

lemma startRun_approval_status:
  assumes "search_input.requireApproval (workflowInputSchema inp)"
  shows "status (startRun sv inp) = Suspended \<or> status (startRun sv inp) = Failed"
proof (cases "analyzeResultsStep sv (searchDocumentsStep sv (workflowInputSchema inp))")
  case (Inl e)
  then show ?thesis by (simp add: startRun_def Let_def failedRun_def)
next
  case (Inr a)
  show ?thesis
  proof (cases "reportInputSchema a")
    case None
    with Inr show ?thesis by (simp add: startRun_def Let_def failedRun_def)
  next
    case (Some ri)
    from startRun_reaches_branch(1,2) [OF Inr Some] assms
    show ?thesis by (simp add: branchNode_approval)
  qed
qed

text \<open>
  C1. Called without resume data, the human-approval step passes to \<^verbatim>\<open>suspend\<close> the record of
  the report's title and content, which are the two fields of the payload type. A run whose
  accepted input has \<^verbatim>\<open>requireApproval = true\<close> and that enters the step (the analysis step
  returned a record that the report step's input schema accepts) is parked as Suspended
  with that payload in its checkpoint, has no terminal output and no failure, and has
  invoked nothing after the step. A run with such an input that does not get that far has
  failed in the analysis; it has no other status.
\<close>

theorem first_entry_suspends_with_report:
  "suspendArg (approvalStep rep None)
     = Some \<lparr> suspend_payload.reportTitle = report_output.reportTitle rep,
              suspend_payload.reportContent = report_output.reportContent rep \<rparr>
   \<and> (search_input.requireApproval (workflowInputSchema inp)
        \<and> analyzeResultsStep sv (searchDocumentsStep sv (workflowInputSchema inp)) = Inr a
        \<and> reportInputSchema a = Some ri
      \<longrightarrow> startRun sv inp
           = \<lparr> status = Suspended, terminalOutput = None, failure = None,
               suspension =
                 Some \<lparr> stepId = ''human-approval'',
                        payload =
                          \<lparr> suspend_payload.reportTitle =
                              report_output.reportTitle (createReportStep sv ri),
                            suspend_payload.reportContent =
                              report_output.reportContent (createReportStep sv ri) \<rparr>,
                        accumulatedDataSnapshot = createReportStep sv ri \<rparr>,
               invoked = [''search-documents'', ''analyze-results'', ''create-report'',
                          ''human-approval''],
               publishCalls = [] \<rparr>)
   \<and> (search_input.requireApproval (workflowInputSchema inp)
      \<longrightarrow> status (startRun sv inp) = Suspended \<or> status (startRun sv inp) = Failed)"
proof -
  have 1: "suspendArg (approvalStep rep None)
     = Some \<lparr> suspend_payload.reportTitle = report_output.reportTitle rep,
              suspend_payload.reportContent = report_output.reportContent rep \<rparr>"
    by (simp add: approvalStep_def)
  have 2: "startRun sv inp
           = \<lparr> status = Suspended, terminalOutput = None, failure = None,
               suspension =
                 Some \<lparr> stepId = ''human-approval'',
                        payload =
                          \<lparr> suspend_payload.reportTitle =
                              report_output.reportTitle (createReportStep sv ri),
                            suspend_payload.reportContent =
                              report_output.reportContent (createReportStep sv ri) \<rparr>,
                        accumulatedDataSnapshot = createReportStep sv ri \<rparr>,
               invoked = [''search-documents'', ''analyze-results'', ''create-report'',
                          ''human-approval''],
               publishCalls = [] \<rparr>"
    if "search_input.requireApproval (workflowInputSchema inp)"
      and "analyzeResultsStep sv (searchDocumentsStep sv (workflowInputSchema inp)) = Inr a"
      and "reportInputSchema a = Some ri"
    using startRun_reaches_branch(1,2) [OF that(2,3)] that(1)
    by (simp add: branchNode_approval)
  from 1 2 startRun_approval_status [of inp sv] show ?thesis by blast
qed

lemma sample_analysis:
  "analyzeResultsStep sampleServices
     (searchDocumentsStep sampleServices (workflowInputSchema (sampleInput\<lparr>workflow_input.requireApproval := Some b\<rparr>)))
     = Inr (sampleAnalysis b)"
  by (simp add: analyzeResultsStep_def search_carries workflowInputSchema_def sampleInput_def
        sampleServices_def sampleAnalysis_def channelsVal_def)

lemma sample_accepted: "reportInputSchema (sampleAnalysis b) = Some (sampleAccepted b)"
  by (simp add: reportInputSchema_def sampleAnalysis_def sampleAccepted_def)

theorem first_entry_suspends_with_report_witness:
  "search_input.requireApproval (workflowInputSchema approvalInput)
   \<and> analyzeResultsStep sampleServices
         (searchDocumentsStep sampleServices (workflowInputSchema approvalInput))
       = Inr (sampleAnalysis True)
   \<and> reportInputSchema (sampleAnalysis True) = Some (sampleAccepted True)
   \<and> status (startRun sampleServices approvalInput) = Suspended
   \<and> terminalOutput (startRun sampleServices approvalInput) = None
   \<and> map_option payload (suspension (startRun sampleServices approvalInput))
       = Some \<lparr> suspend_payload.reportTitle = ''Research Report: X'',
                suspend_payload.reportContent =
                  report_output.reportContent (createReportStep sampleServices (sampleAccepted True)) \<rparr>"
proof -
  have h1: "search_input.requireApproval (workflowInputSchema approvalInput)"
    by (simp add: workflowInputSchema_def approvalInput_def)
  have h2: "analyzeResultsStep sampleServices
         (searchDocumentsStep sampleServices (workflowInputSchema approvalInput))
       = Inr (sampleAnalysis True)"
    using sample_analysis [of True] by (simp add: approvalInput_def)
  have h3: "reportInputSchema (sampleAnalysis True) = Some (sampleAccepted True)"
    by (rule sample_accepted)
  have t: "report_output.reportTitle (createReportStep sampleServices (sampleAccepted True))
             = ''Research Report: X''"
    by (simp add: report_carries sampleAccepted_def)
  from first_entry_suspends_with_report
         [of _ approvalInput sampleServices "sampleAnalysis True" "sampleAccepted True"]
       h1 h2 h3
  have "startRun sampleServices approvalInput
           = \<lparr> status = Suspended, terminalOutput = None, failure = None,
               suspension =
                 Some \<lparr> stepId = ''human-approval'',
                        payload =
                          \<lparr> suspend_payload.reportTitle =
                              report_output.reportTitle (createReportStep sampleServices (sampleAccepted True)),
                            suspend_payload.reportContent =
                              report_output.reportContent (createReportStep sampleServices (sampleAccepted True)) \<rparr>,
                        accumulatedDataSnapshot = createReportStep sampleServices (sampleAccepted True) \<rparr>,
               invoked = [''search-documents'', ''analyze-results'', ''create-report'',
                          ''human-approval''],
               publishCalls = [] \<rparr>"
    by blast
  with h1 h2 h3 t show ?thesis by simp
qed

lemma publish_rejected:
  "\<not> approved_report.approved n \<Longrightarrow>
   publishReportStep sv n
     = (Bail \<lparr> published = False, publishedChannels = [], urls = [],
               publish_output.reportTitle = approved_report.reportTitle n,
               message = ''Report was not approved for publication'' \<rparr>, [])"
  by (simp add: publishReportStep_def)

lemma resume_rejected:
  assumes "status r = Suspended" and "suspension r = Some cp" and "\<not> resume_data.approved rd"
  shows "resumeRun sv r rd
     = Inr \<lparr> status = Bailed,
             terminalOutput =
               Some (BailRecord
                 \<lparr> published = False, publishedChannels = [], urls = [],
                   publish_output.reportTitle =
                     report_output.reportTitle (accumulatedDataSnapshot cp),
                   message = ''Report was not approved for publication'' \<rparr>),
             failure = None, suspension = None,
             invoked = invoked r @ [''normalize-branch-output'', ''publish-report''],
             publishCalls = [] \<rparr>"
  using assms
  by (simp add: resumeRun_def Let_def approvalStep_def afterBranch_def
        normalizeBranchOutputStep_def publish_rejected)

text \<open>
  C2. Resuming a run that is suspended at the human-approval step with resume data whose
  \<^verbatim>\<open>approved\<close> is false makes the publish step return \<^verbatim>\<open>bail\<close> of the record with
  \<^verbatim>\<open>published = false\<close> and no published channels. The run ends as Bailed with that record as
  its terminal output, no publish helper has been called, and the nodes invoked after the
  resumption are normalize-branch-output and publish-report only: the map node is skipped.
\<close>

theorem rejected_resume_bails:
  "(\<not> approved_report.approved n
      \<longrightarrow> publishReportStep sv n
          = (Bail \<lparr> published = False, publishedChannels = [], urls = [],
                    publish_output.reportTitle = approved_report.reportTitle n,
                    message = ''Report was not approved for publication'' \<rparr>, []))
   \<and> (status r = Suspended \<and> suspension r = Some cp \<and> \<not> resume_data.approved rd
      \<longrightarrow> resumeRun sv r rd
          = Inr \<lparr> status = Bailed,
                  terminalOutput =
                    Some (BailRecord
                      \<lparr> published = False, publishedChannels = [], urls = [],
                        publish_output.reportTitle =
                          report_output.reportTitle (accumulatedDataSnapshot cp),
                        message = ''Report was not approved for publication'' \<rparr>),
                  failure = None, suspension = None,
                  invoked = invoked r @ [''normalize-branch-output'', ''publish-report''],
                  publishCalls = [] \<rparr>)
   \<and> (status (startRun sv inp) = Suspended \<and> \<not> resume_data.approved rd
      \<longrightarrow> (\<exists>r' final.
             resumeRun sv (startRun sv inp) rd = Inr r'
             \<and> status r' = Bailed
             \<and> terminalOutput r' = Some (BailRecord final)
             \<and> published final = False
             \<and> publish_output.publishedChannels final = []
             \<and> publishCalls r' = []
             \<and> invoked r' = [''search-documents'', ''analyze-results'', ''create-report'',
                             ''human-approval'', ''normalize-branch-output'', ''publish-report'']
             \<and> ''map'' \<notin> set (invoked r')))"
proof -
  have 3: "\<exists>r' final.
             resumeRun sv (startRun sv inp) rd = Inr r'
             \<and> status r' = Bailed
             \<and> terminalOutput r' = Some (BailRecord final)
             \<and> published final = False
             \<and> publish_output.publishedChannels final = []
             \<and> publishCalls r' = []
             \<and> invoked r' = [''search-documents'', ''analyze-results'', ''create-report'',
                             ''human-approval'', ''normalize-branch-output'', ''publish-report'']
             \<and> ''map'' \<notin> set (invoked r')"
    if s: "status (startRun sv inp) = Suspended" and a: "\<not> resume_data.approved rd"
  proof -
    from startRun_suspended [OF s] obtain rep where
      r: "startRun sv inp
     = \<lparr> status = Suspended, terminalOutput = None, failure = None,
         suspension = Some \<lparr> stepId = ''human-approval'',
                              payload = \<lparr> suspend_payload.reportTitle = report_output.reportTitle rep,
                                          suspend_payload.reportContent = report_output.reportContent rep \<rparr>,
                              accumulatedDataSnapshot = rep \<rparr>,
         invoked = [''search-documents'', ''analyze-results'', ''create-report'', ''human-approval''],
         publishCalls = [] \<rparr>" by blast
    have "suspension (startRun sv inp) = Some \<lparr> stepId = ''human-approval'',
                              payload = \<lparr> suspend_payload.reportTitle = report_output.reportTitle rep,
                                          suspend_payload.reportContent = report_output.reportContent rep \<rparr>,
                              accumulatedDataSnapshot = rep \<rparr>"
      and "invoked (startRun sv inp) = [''search-documents'', ''analyze-results'', ''create-report'', ''human-approval'']"
      by (simp_all add: r)
    with resume_rejected [OF s _ a, of _ sv] show ?thesis by simp
  qed
  from publish_rejected [of n sv] resume_rejected [of r cp rd sv] 3 show ?thesis by blast
qed

theorem rejected_resume_bails_witness:
  "status (startRun sampleServices approvalInput) = Suspended
   \<and> \<not> resume_data.approved rejection
   \<and> (\<exists>r' final.
         resumeRun sampleServices (startRun sampleServices approvalInput) rejection = Inr r'
         \<and> status r' = Bailed
         \<and> terminalOutput r' = Some (BailRecord final)
         \<and> published final = False
         \<and> publish_output.publishedChannels final = []
         \<and> publishCalls r' = []
         \<and> ''map'' \<notin> set (invoked r'))"
proof -
  have h1: "search_input.requireApproval (workflowInputSchema approvalInput)"
    by (simp add: workflowInputSchema_def approvalInput_def)
  have h2: "analyzeResultsStep sampleServices
         (searchDocumentsStep sampleServices (workflowInputSchema approvalInput))
       = Inr (sampleAnalysis True)"
    using sample_analysis [of True] by (simp add: approvalInput_def)
  have s: "status (startRun sampleServices approvalInput) = Suspended"
    using startRun_reaches_branch(1,2) [OF h2 sample_accepted] h1
    by (simp add: branchNode_approval)
  have a: "\<not> resume_data.approved rejection" by (simp add: rejection_def)
  from rejected_resume_bails [of _ sampleServices _ _ rejection approvalInput] s a
  show ?thesis by blast
qed

text \<open>
  C10. When the human-approval step is called with resume data it does not suspend, and the
  \<^verbatim>\<open>reportContent\<close> it returns is the \<^verbatim>\<open>modifiedContent\<close> of the resume data when that is
  present and not the empty string, and the \<^verbatim>\<open>reportContent\<close> of its input otherwise;
  \<^verbatim>\<open>approved\<close> and \<^verbatim>\<open>feedback\<close> are those of the resume data.
\<close>

theorem resume_data_rewrites_report:
  "(let eff = approvalStep inp (Some rd); out = returned eff in
      suspendArg eff = None
    \<and> approval_output.approved out = resume_data.approved rd
    \<and> approval_output.feedback out = resume_data.feedback rd
    \<and> (\<forall>s. modifiedContent rd = Some s \<and> s \<noteq> []
           \<longrightarrow> approval_output.reportContent out = s)
    \<and> (modifiedContent rd = Some []
           \<longrightarrow> approval_output.reportContent out = report_output.reportContent inp)
    \<and> (modifiedContent rd = None
           \<longrightarrow> approval_output.reportContent out = report_output.reportContent inp))"
  by (simp add: Let_def approvalStep_def orElse_def)

theorem resume_data_rewrites_report_witness:
  "modifiedContent rewriting = Some ''Short report''
   \<and> approval_output.reportContent (returned (approvalStep sampleReport (Some rewriting)))
       = ''Short report''
   \<and> approval_output.feedback (returned (approvalStep sampleReport (Some rewriting)))
       = Some ''Shorter, please''
   \<and> modifiedContent (rewriting\<lparr>modifiedContent := Some []\<rparr>) = Some []
   \<and> approval_output.reportContent
         (returned (approvalStep sampleReport (Some (rewriting\<lparr>modifiedContent := Some []\<rparr>))))
       = ''Long report''
   \<and> modifiedContent rejection = None
   \<and> approval_output.reportContent (returned (approvalStep sampleReport (Some rejection)))
       = ''Long report''"
  using resume_data_rewrites_report [of sampleReport rewriting]
    resume_data_rewrites_report [of sampleReport "rewriting\<lparr>modifiedContent := Some []\<rparr>"]
    resume_data_rewrites_report [of sampleReport rejection]
  by (simp add: Let_def rewriting_def rejection_def sampleReport_def)

text \<open>
  C9. When the completion call returns a text that \<^verbatim>\<open>JSON.parse\<close> rejects, the analysis step
  returns the fallback object: the text as \<^verbatim>\<open>summary\<close>, the fixed key finding and
  recommendation, the score 75 and the three carried fields; the object satisfies the input
  schema of the report step. Whenever the completion call returns, parsed or not, the step
  returns an object whose \<^verbatim>\<open>query\<close>, \<^verbatim>\<open>requireApproval\<close> and \<^verbatim>\<open>publishChannels\<close> are those of
  its input.
\<close>

theorem analysis_falls_back_on_unparseable_text:
  "generateText sv (analysisPrompt sv inp) = Inr reply
   \<longrightarrow> (jsonParse sv reply = None
        \<longrightarrow> analyzeResultsStep sv inp
              = Inr (Obj [(''summary'', Str reply),
                          (''keyFindings'', Arr [Str ''Analysis completed'']),
                          (''recommendations'', Arr [Str ''Review the findings'']),
                          (''relevanceScore'', Num 75),
                          (''query'', Str (search_output.query inp)),
                          (''requireApproval'', Bool (search_output.requireApproval inp)),
                          (''publishChannels'', channelsVal (search_output.publishChannels inp))])
          \<and> (\<exists>a. analyzeResultsStep sv inp = Inr a
                 \<and> reportInputSchema a
                     = Some \<lparr> summary = reply, keyFindings = [''Analysis completed''],
                              recommendations = [''Review the findings''], relevanceScore = 75,
                              report_input.query = search_output.query inp,
                              report_input.requireApproval = search_output.requireApproval inp,
                              report_input.publishChannels = search_output.publishChannels inp \<rparr>))
     \<and> (\<exists>a. analyzeResultsStep sv inp = Inr a
            \<and> getProp a ''query'' = Str (search_output.query inp)
            \<and> getProp a ''requireApproval'' = Bool (search_output.requireApproval inp)
            \<and> getProp a ''publishChannels'' = channelsVal (search_output.publishChannels inp))"
proof (intro impI)
  assume g: "generateText sv (analysisPrompt sv inp) = Inr reply"
  have fallback: "analyzeResultsStep sv inp
              = Inr (Obj [(''summary'', Str reply),
                          (''keyFindings'', Arr [Str ''Analysis completed'']),
                          (''recommendations'', Arr [Str ''Review the findings'']),
                          (''relevanceScore'', Num 75),
                          (''query'', Str (search_output.query inp)),
                          (''requireApproval'', Bool (search_output.requireApproval inp)),
                          (''publishChannels'', channelsVal (search_output.publishChannels inp))])"
    if "jsonParse sv reply = None"
    using g that by (simp add: analyzeResultsStep_def)
  have accepted: "reportInputSchema
           (Obj [(''summary'', Str reply),
                 (''keyFindings'', Arr [Str ''Analysis completed'']),
                 (''recommendations'', Arr [Str ''Review the findings'']),
                 (''relevanceScore'', Num 75),
                 (''query'', Str (search_output.query inp)),
                 (''requireApproval'', Bool (search_output.requireApproval inp)),
                 (''publishChannels'', channelsVal (search_output.publishChannels inp))])
         = Some \<lparr> summary = reply, keyFindings = [''Analysis completed''],
                  recommendations = [''Review the findings''], relevanceScore = 75,
                  report_input.query = search_output.query inp,
                  report_input.requireApproval = search_output.requireApproval inp,
                  report_input.publishChannels = search_output.publishChannels inp \<rparr>"
    by (simp add: reportInputSchema_def zChannels_roundtrip)
  from g obtain a where a: "analyzeResultsStep sv inp = Inr a"
    by (cases "jsonParse sv reply") (simp_all add: analyzeResultsStep_def)
  from analysis_carries [OF a] a fallback accepted
  show "(jsonParse sv reply = None
        \<longrightarrow> analyzeResultsStep sv inp
              = Inr (Obj [(''summary'', Str reply),
                          (''keyFindings'', Arr [Str ''Analysis completed'']),
                          (''recommendations'', Arr [Str ''Review the findings'']),
                          (''relevanceScore'', Num 75),
                          (''query'', Str (search_output.query inp)),
                          (''requireApproval'', Bool (search_output.requireApproval inp)),
                          (''publishChannels'', channelsVal (search_output.publishChannels inp))])
          \<and> (\<exists>a. analyzeResultsStep sv inp = Inr a
                 \<and> reportInputSchema a
                     = Some \<lparr> summary = reply, keyFindings = [''Analysis completed''],
                              recommendations = [''Review the findings''], relevanceScore = 75,
                              report_input.query = search_output.query inp,
                              report_input.requireApproval = search_output.requireApproval inp,
                              report_input.publishChannels = search_output.publishChannels inp \<rparr>))
     \<and> (\<exists>a. analyzeResultsStep sv inp = Inr a
            \<and> getProp a ''query'' = Str (search_output.query inp)
            \<and> getProp a ''requireApproval'' = Bool (search_output.requireApproval inp)
            \<and> getProp a ''publishChannels'' = channelsVal (search_output.publishChannels inp))"
    by auto
qed

theorem analysis_falls_back_on_unparseable_text_witness:
  "generateText sampleServices (analysisPrompt sampleServices (initialResults twoPlatforms))
     = Inr ''The results look relevant.''
   \<and> jsonParse sampleServices ''The results look relevant.'' = None
   \<and> analyzeResultsStep sampleServices (initialResults twoPlatforms) = Inr (sampleAnalysis True)
   \<and> generateText terseServices (analysisPrompt terseServices (initialResults twoPlatforms))
       = Inr ''42''
   \<and> jsonParse terseServices ''42'' = Some (Num 42)
   \<and> (\<exists>a. analyzeResultsStep terseServices (initialResults twoPlatforms) = Inr a
          \<and> getProp a ''query'' = Str ''X''
          \<and> getProp a ''requireApproval'' = Bool True
          \<and> getProp a ''publishChannels'' = Undefined)"
proof -
  have g1: "generateText sampleServices (analysisPrompt sampleServices (initialResults twoPlatforms))
     = Inr ''The results look relevant.''"
    by (simp add: sampleServices_def)
  have p1: "jsonParse sampleServices ''The results look relevant.'' = None"
    by (simp add: sampleServices_def)
  have g2: "generateText terseServices (analysisPrompt terseServices (initialResults twoPlatforms))
       = Inr ''42''"
    by (simp add: terseServices_def)
  have p2: "jsonParse terseServices ''42'' = Some (Num 42)"
    by (simp add: terseServices_def sampleServices_def)
  have f: "search_output.query (initialResults twoPlatforms) = ''X''"
    "search_output.requireApproval (initialResults twoPlatforms) = True"
    "channelsVal (search_output.publishChannels (initialResults twoPlatforms)) = Undefined"
    by (simp_all add: initialResults_def twoPlatforms_def channelsVal_def)
  from analysis_falls_back_on_unparseable_text
         [of sampleServices "initialResults twoPlatforms" "''The results look relevant.''"] g1 p1
  have a1: "analyzeResultsStep sampleServices (initialResults twoPlatforms) = Inr (sampleAnalysis True)"
    by (simp add: f sampleAnalysis_def)
  from analysis_falls_back_on_unparseable_text
         [of terseServices "initialResults twoPlatforms" "''42''"] g2
  have a2: "\<exists>a. analyzeResultsStep terseServices (initialResults twoPlatforms) = Inr a
          \<and> getProp a ''query'' = Str ''X''
          \<and> getProp a ''requireApproval'' = Bool True
          \<and> getProp a ''publishChannels'' = Undefined"
    by (simp add: f)
  from g1 p1 a1 g2 p2 a2 show ?thesis by blast
qed

section \<open>The auto-approve scenario\<close>

lemma publish_default_channel:
  assumes "approved_report.approved n" and "approved_report.publishChannels n = None"
    and "createGoogleDoc sv (approved_report.reportTitle n) (approved_report.reportContent n) = Inr url"
  shows "publishReportStep sv n
     = (Return \<lparr> published = True, publishedChannels = [''google-drive''], urls = [url],
                 publish_output.reportTitle = approved_report.reportTitle n,
                 message = ''Report published to google-drive'' \<rparr>,
        [CreateGoogleDoc (approved_report.reportTitle n) (approved_report.reportContent n)])"
  using assms by (simp add: publishReportStep_def Let_def)

text \<open>
  C8. For the input \<^verbatim>\<open>{query: "X", platforms: ["github"], requireApproval: false}\<close>, which
  names no publish channel, the publish step publishes to its default, the one channel
  \<^verbatim>\<open>google-drive\<close>. When the run reaches the branch (the analysis step returned a record that
  the report step's input schema accepts) and the call of \<^verbatim>\<open>createGoogleDoc\<close> returns, the
  branch selects the auto-approve step, the run invokes auto-approve, normalize, publish
  and the map node, and it ends as Succeeded with \<^verbatim>\<open>success = true\<close> and
  \<^verbatim>\<open>publishedChannels = ["google-drive"]\<close>.
\<close>

theorem auto_approve_run_publishes:
  "analyzeResultsStep sv (searchDocumentsStep sv (workflowInputSchema sampleInput)) = Inr a
   \<and> reportInputSchema a = Some ri
   \<and> createGoogleDoc sv ''Research Report: X''
         (report_output.reportContent (createReportStep sv ri)) = Inr url
   \<longrightarrow> launched (workflowInputSchema sampleInput) = [GitHub]
     \<and> route approvalBranches (createReportStep sv ri) = Some AutoApproveStep
     \<and> startRun sv sampleInput
         = \<lparr> status = Succeeded,
             terminalOutput =
               Some (Mapped \<lparr> success = True,
                              workflow_output.reportTitle = ''Research Report: X'',
                              workflow_output.publishedChannels = [''google-drive''],
                              workflow_output.message = ''Report published to google-drive'' \<rparr>),
             failure = None, suspension = None,
             invoked = [''search-documents'', ''analyze-results'', ''create-report'',
                        ''auto-approve'', ''normalize-branch-output'', ''publish-report'', ''map''],
             publishCalls =
               [CreateGoogleDoc ''Research Report: X''
                  (report_output.reportContent (createReportStep sv ri))] \<rparr>"
proof (intro impI, elim conjE)
  let ?rep = "createReportStep sv ri"
  assume a: "analyzeResultsStep sv (searchDocumentsStep sv (workflowInputSchema sampleInput)) = Inr a"
    and r: "reportInputSchema a = Some ri"
    and c: "createGoogleDoc sv ''Research Report: X'' (report_output.reportContent ?rep) = Inr url"
  have l: "launched (workflowInputSchema sampleInput) = [GitHub]"
    by (simp add: launched_def selected_def workflowInputSchema_def sampleInput_def)
  from startRun_reaches_branch [OF a r]
  have eq: "startRun sv sampleInput
              = branchNode sv [''search-documents'', ''analyze-results'', ''create-report''] ?rep"
    and ra: "\<not> report_output.requireApproval ?rep"
    and pc: "report_output.publishChannels ?rep = None"
    and ti: "report_output.reportTitle ?rep = ''Research Report: X''"
    by (simp_all add: workflowInputSchema_def sampleInput_def)
  have ro: "route approvalBranches ?rep = Some AutoApproveStep"
    using ra by (simp add: route_approval)
  let ?n = "\<lparr> approved_report.approved = True,
              approved_report.reportTitle = ''Research Report: X'',
              approved_report.reportContent = report_output.reportContent ?rep,
              approved_report.publishChannels = None \<rparr>"
  have no: "normalizeBranchOutputStep \<lparr> humanApproval = None, autoApprove = Some (autoApproveStep ?rep) \<rparr>
              = Inr ?n"
    by (simp add: normalizeBranchOutputStep_def autoApproveStep_def pc ti)
  have pu: "publishReportStep sv ?n
     = (Return \<lparr> published = True, publishedChannels = [''google-drive''], urls = [url],
                 publish_output.reportTitle = ''Research Report: X'',
                 message = ''Report published to google-drive'' \<rparr>,
        [CreateGoogleDoc ''Research Report: X'' (report_output.reportContent ?rep)])"
    using publish_default_channel [of ?n sv url] c by simp
  have "startRun sv sampleInput
         = \<lparr> status = Succeeded,
             terminalOutput =
               Some (Mapped \<lparr> success = True,
                              workflow_output.reportTitle = ''Research Report: X'',
                              workflow_output.publishedChannels = [''google-drive''],
                              workflow_output.message = ''Report published to google-drive'' \<rparr>),
             failure = None, suspension = None,
             invoked = [''search-documents'', ''analyze-results'', ''create-report'',
                        ''auto-approve'', ''normalize-branch-output'', ''publish-report'', ''map''],
             publishCalls =
               [CreateGoogleDoc ''Research Report: X'' (report_output.reportContent ?rep)] \<rparr>"
    unfolding eq branchNode_auto [OF ra] afterBranch_def no
    by (simp add: pu mapFinalOutput_def)
  with l ro show "launched (workflowInputSchema sampleInput) = [GitHub]
     \<and> route approvalBranches ?rep = Some AutoApproveStep
     \<and> startRun sv sampleInput
         = \<lparr> status = Succeeded,
             terminalOutput =
               Some (Mapped \<lparr> success = True,
                              workflow_output.reportTitle = ''Research Report: X'',
                              workflow_output.publishedChannels = [''google-drive''],
                              workflow_output.message = ''Report published to google-drive'' \<rparr>),
             failure = None, suspension = None,
             invoked = [''search-documents'', ''analyze-results'', ''create-report'',
                        ''auto-approve'', ''normalize-branch-output'', ''publish-report'', ''map''],
             publishCalls =
               [CreateGoogleDoc ''Research Report: X'' (report_output.reportContent ?rep)] \<rparr>"
    by blast
qed

theorem auto_approve_run_publishes_witness:
  "analyzeResultsStep sampleServices
       (searchDocumentsStep sampleServices (workflowInputSchema sampleInput))
     = Inr (sampleAnalysis False)
   \<and> reportInputSchema (sampleAnalysis False) = Some (sampleAccepted False)
   \<and> createGoogleDoc sampleServices ''Research Report: X''
         (report_output.reportContent (createReportStep sampleServices (sampleAccepted False)))
       = Inr ''https://docs.google.com/document/d/example-7''
   \<and> status (startRun sampleServices sampleInput) = Succeeded
   \<and> terminalOutput (startRun sampleServices sampleInput)
       = Some (Mapped \<lparr> success = True,
                        workflow_output.reportTitle = ''Research Report: X'',
                        workflow_output.publishedChannels = [''google-drive''],
                        workflow_output.message = ''Report published to google-drive'' \<rparr>)"
proof -
  have h1: "analyzeResultsStep sampleServices
       (searchDocumentsStep sampleServices (workflowInputSchema sampleInput))
     = Inr (sampleAnalysis False)"
    using sample_analysis [of False] by (simp add: sampleInput_def)
  have h2: "reportInputSchema (sampleAnalysis False) = Some (sampleAccepted False)"
    by (rule sample_accepted)
  have n: "string_of_nat 7 = ''7''" by code_simp
  have h3: "createGoogleDoc sampleServices ''Research Report: X''
         (report_output.reportContent (createReportStep sampleServices (sampleAccepted False)))
       = Inr ''https://docs.google.com/document/d/example-7''"
    by (simp add: sampleServices_def placeholderCreateGoogleDoc_def n)
  from auto_approve_run_publishes
         [of sampleServices "sampleAnalysis False" "sampleAccepted False"
             "''https://docs.google.com/document/d/example-7''"] h1 h2 h3
  show ?thesis by simp
qed

text \<open>
  The claim C8 as it is written assumes only that the publish operation succeeds. With a
  completion call that throws, or one that answers \<^verbatim>\<open>{}\<close> (which parses, so that the fallback
  is not taken, and lacks the fields of the report step's input schema), the publish helper
  would succeed and the run fails before it reaches the branch.
\<close>

theorem analysis_failure_fails_the_run:
  "createGoogleDoc offlineServices ''Research Report: X'' ''content''
     = Inr ''https://docs.google.com/document/d/example-7''
   \<and> startRun offlineServices sampleInput
       = \<lparr> status = Failed, terminalOutput = None,
           failure = Some (ExecutionError ''analyze-results'' (Error ''completion failed'')),
           suspension = None, invoked = [''search-documents'', ''analyze-results''],
           publishCalls = [] \<rparr>
   \<and> createGoogleDoc emptyReplyServices ''Research Report: X'' ''content''
       = Inr ''https://docs.google.com/document/d/example-7''
   \<and> startRun emptyReplyServices sampleInput
       = \<lparr> status = Failed, terminalOutput = None,
           failure = Some (ValidationError ''create-report''),
           suspension = None, invoked = [''search-documents'', ''analyze-results''],
           publishCalls = [] \<rparr>"
proof -
  have n: "string_of_nat 7 = ''7''" by code_simp
  have 1: "createGoogleDoc offlineServices ''Research Report: X'' ''content''
     = Inr ''https://docs.google.com/document/d/example-7''"
    by (simp add: offlineServices_def sampleServices_def placeholderCreateGoogleDoc_def n)
  have 2: "startRun offlineServices sampleInput
       = \<lparr> status = Failed, terminalOutput = None,
           failure = Some (ExecutionError ''analyze-results'' (Error ''completion failed'')),
           suspension = None, invoked = [''search-documents'', ''analyze-results''],
           publishCalls = [] \<rparr>"
    by (simp add: startRun_def Let_def analyzeResultsStep_def offlineServices_def failedRun_def)
  have 3: "createGoogleDoc emptyReplyServices ''Research Report: X'' ''content''
     = Inr ''https://docs.google.com/document/d/example-7''"
    by (simp add: emptyReplyServices_def sampleServices_def placeholderCreateGoogleDoc_def n)
  have a: "analyzeResultsStep emptyReplyServices
             (searchDocumentsStep emptyReplyServices (workflowInputSchema sampleInput))
           = Inr (Obj [(''query'', Str ''X''), (''requireApproval'', Bool False),
                       (''publishChannels'', Undefined)])"
    by (simp add: analyzeResultsStep_def search_carries workflowInputSchema_def sampleInput_def
          emptyReplyServices_def sampleServices_def channelsVal_def)
  have r: "reportInputSchema (Obj [(''query'', Str ''X''), (''requireApproval'', Bool False),
                       (''publishChannels'', Undefined)]) = None"
    by (simp add: reportInputSchema_def)
  have 4: "startRun emptyReplyServices sampleInput
       = \<lparr> status = Failed, terminalOutput = None,
           failure = Some (ValidationError ''create-report''),
           suspension = None, invoked = [''search-documents'', ''analyze-results''],
           publishCalls = [] \<rparr>"
    by (simp add: startRun_def Let_def a r failedRun_def)
  from 1 2 3 4 show ?thesis by blast
qed

section \<open>Properties of the project onboarding workflow\<close>

lemma registered_agent:
  "getAgent (Some (mastraInstance pa cr)) ''projectAssistantAgent'' = Some pa"
  by (simp add: getAgent_def mastraInstance_def)




lemma github_returns:
  assumes "getAgent m ''projectAssistantAgent'' = Some pa"
  shows "\<exists>u n ok. createGitHubRepository m s1
     = Inr (step1_output.extend s1 \<lparr> repositoryUrl = u, repositoryName = n, githubSuccess = ok \<rparr>)"
  using assms by (auto simp: createGitHubRepository_def split: sum.splits)

lemma drive_returns:
  assumes "getAgent m ''projectAssistantAgent'' = Some pa"
  shows "\<exists>u n ok. createGoogleDriveFolder m s2
     = Inr (step2_output.extend s2 \<lparr> driveFolderUrl = u, driveFolderId = n, driveSuccess = ok \<rparr>)"
  using assms by (auto simp: createGoogleDriveFolder_def split: sum.splits)

lemma slack_returns:
  assumes "getAgent m ''projectAssistantAgent'' = Some pa"
  shows "\<exists>u n ok. createSlackChannel w m s3
     = Inr (step3_output.extend s3 \<lparr> channelName = u, channelId = n, slackSuccess = ok \<rparr>)"
  using assms by (auto simp: createSlackChannel_def Let_def split: sum.splits)




lemma validate_fields:
  "platforms (validateProjectData w inp) = platforms inp"
  "project_input.truncate (validateProjectData w inp) = inp"
  by (simp_all add: validateProjectData_def Let_def project_input.defs)



lemma chain_threads:
  assumes 2: "createGitHubRepository m (validateProjectData w inp) = Inr s2"
    and 3: "createGoogleDriveFolder m s2 = Inr s3"
    and 4: "createSlackChannel w m s3 = Inr s4"
  shows "step3_output.truncate s4 = s3"
    and "step2_output.truncate s4 = s2"
    and "step1_output.truncate s4 = validateProjectData w inp"
    and "project_input.truncate s4 = inp"
proof -
  from 4 show t3: "step3_output.truncate s4 = s3"
    by (auto simp: createSlackChannel_def Let_def step3_output.defs
          split: option.splits if_splits sum.splits)
  from 3 have t2: "step2_output.truncate s3 = s2"
    by (auto simp: createGoogleDriveFolder_def step2_output.defs
          split: option.splits if_splits sum.splits)
  from 2 have t1: "step1_output.truncate s2 = validateProjectData w inp"
    by (auto simp: createGitHubRepository_def step1_output.defs
          split: option.splits if_splits sum.splits)
  have a: "step2_output.truncate s4 = step2_output.truncate (step3_output.truncate s4)"
    by (simp add: step2_output.defs step3_output.defs)
  have b: "step1_output.truncate s4 = step1_output.truncate (step2_output.truncate s4)"
    by (simp add: step1_output.defs step2_output.defs)
  have c: "project_input.truncate s4 = project_input.truncate (step1_output.truncate s4)"
    by (simp add: step1_output.defs project_input.defs)
  from a t3 t2 show s2: "step2_output.truncate s4 = s2" by simp
  from b s2 t1 show 1: "step1_output.truncate s4 = validateProjectData w inp" by simp
  from c 1 show "project_input.truncate s4 = inp" by (simp add: validate_fields)
qed

text \<open>
  C7. Every step of the onboarding workflow before the summary step returns its input
  record extended with the step's own three fields: cutting the output back to the fields
  of the input schema gives the input. Hence, when each step is given the output of the
  step before it, the record the Slack step returns still holds, unchanged, the workflow's
  input and the fields every earlier step added.
\<close>

theorem steps_keep_every_input_field:
  "(\<exists>pid at sl. validateProjectData w inp
        = project_input.extend inp \<lparr> step1_output.projectId = pid, createdAt = at, slug = sl \<rparr>)
   \<and> project_input.truncate (validateProjectData w inp) = inp
   \<and> (createGitHubRepository m s1 = Inr s2
      \<longrightarrow> step1_output.truncate s2 = s1
        \<and> s2 = step1_output.extend s1
                 \<lparr> repositoryUrl = repositoryUrl s2, repositoryName = repositoryName s2,
                   githubSuccess = githubSuccess s2 \<rparr>)
   \<and> (createGoogleDriveFolder m t2 = Inr t3
      \<longrightarrow> step2_output.truncate t3 = t2
        \<and> t3 = step2_output.extend t2
                 \<lparr> driveFolderUrl = driveFolderUrl t3, driveFolderId = driveFolderId t3,
                   driveSuccess = driveSuccess t3 \<rparr>)
   \<and> (createSlackChannel w m u3 = Inr u4
      \<longrightarrow> step3_output.truncate u4 = u3
        \<and> u4 = step3_output.extend u3
                 \<lparr> channelName = channelName u4, channelId = channelId u4,
                   slackSuccess = slackSuccess u4 \<rparr>)
   \<and> (createGitHubRepository m (validateProjectData w inp) = Inr r2
        \<and> createGoogleDriveFolder m r2 = Inr r3
        \<and> createSlackChannel w m r3 = Inr r4
      \<longrightarrow> project_input.truncate r4 = inp
        \<and> step1_output.truncate r4 = validateProjectData w inp
        \<and> step2_output.truncate r4 = r2
        \<and> step3_output.truncate r4 = r3)"
proof -
  have 0: "\<exists>pid at sl. validateProjectData w inp
        = project_input.extend inp \<lparr> step1_output.projectId = pid, createdAt = at, slug = sl \<rparr>"
    unfolding validateProjectData_def Let_def by blast
  have 2: "step1_output.truncate s2 = s1
        \<and> s2 = step1_output.extend s1
                 \<lparr> repositoryUrl = repositoryUrl s2, repositoryName = repositoryName s2,
                   githubSuccess = githubSuccess s2 \<rparr>"
    if "createGitHubRepository m s1 = Inr s2"
    using that
    by (auto simp: createGitHubRepository_def step1_output.defs
          split: option.splits if_splits sum.splits)
  have 3: "step2_output.truncate t3 = t2
        \<and> t3 = step2_output.extend t2
                 \<lparr> driveFolderUrl = driveFolderUrl t3, driveFolderId = driveFolderId t3,
                   driveSuccess = driveSuccess t3 \<rparr>"
    if "createGoogleDriveFolder m t2 = Inr t3"
    using that
    by (auto simp: createGoogleDriveFolder_def step2_output.defs
          split: option.splits if_splits sum.splits)
  have 4: "step3_output.truncate u4 = u3
        \<and> u4 = step3_output.extend u3
                 \<lparr> channelName = channelName u4, channelId = channelId u4,
                   slackSuccess = slackSuccess u4 \<rparr>"
    if "createSlackChannel w m u3 = Inr u4"
    using that
    by (auto simp: createSlackChannel_def Let_def step3_output.defs
          split: option.splits if_splits sum.splits)
  from 0 validate_fields(2) [of w inp] 2 3 4 chain_threads [of m w inp r2 r3 r4]
  show ?thesis by blast
qed

theorem steps_keep_every_input_field_witness:
  "(\<exists>r2 r3 r4.
       createGitHubRepository (Some (mastraInstance summaryOnlyAgent failingAgent))
           (validateProjectData sampleSurroundings sampleProject) = Inr r2
     \<and> createGoogleDriveFolder (Some (mastraInstance summaryOnlyAgent failingAgent)) r2 = Inr r3
     \<and> createSlackChannel sampleSurroundings (Some (mastraInstance summaryOnlyAgent failingAgent)) r3
         = Inr r4
     \<and> project_input.truncate r4 = sampleProject
     \<and> projectName r4 = ''My App''
     \<and> step1_output.truncate r4 = validateProjectData sampleSurroundings sampleProject
     \<and> step2_output.truncate r4 = r2)"
proof -
  let ?m = "Some (mastraInstance summaryOnlyAgent failingAgent)"
  note reg = registered_agent [of summaryOnlyAgent failingAgent]
  from github_returns [OF reg] obtain r2 where
    2: "createGitHubRepository ?m (validateProjectData sampleSurroundings sampleProject) = Inr r2"
    by blast
  from drive_returns [OF reg] obtain r3 where
    3: "createGoogleDriveFolder ?m r2 = Inr r3" by blast
  from slack_returns [OF reg] obtain r4 where
    4: "createSlackChannel sampleSurroundings ?m r3 = Inr r4" by blast
  from steps_keep_every_input_field [of sampleSurroundings sampleProject ?m _ _ _ _ _ _ r2 r3 r4]
    2 3 4
  have t: "project_input.truncate r4 = sampleProject"
    and u: "step1_output.truncate r4 = validateProjectData sampleSurroundings sampleProject"
    and v: "step2_output.truncate r4 = r2"
    by blast+
  have "projectName r4 = projectName (project_input.truncate r4)"
    by (simp add: project_input.defs)
  with t have "projectName r4 = ''My App''" by (simp add: sampleProject_def)
  with 2 3 4 t u v show ?thesis by blast
qed

end
